theory Spec2Isabelle
  imports Complex_Main "HOL-Library.Sublist"
begin

section \<open>JavaScript values read by the mining page\<close>

text \<open>
  The page \<^verbatim>\<open>app/routes/mine.tsx\<close> computes with JavaScript numbers. Only comparisons,
  \<^verbatim>\<open>Math.min\<close>, \<^verbatim>\<open>Math.max\<close> and the subtraction \<^verbatim>\<open>prevMax - 0.5\<close> occur, so a number
  is modelled as \<open>NaN\<close>, an infinity or a finite real: comparisons, minimum and maximum
  are exact on doubles, and every comparison with \<open>NaN\<close> is false. The subtraction is
  only compared with a progress clamped to 0 to 100: for a previous maximum of at least
  0.25 it is exact on doubles, and below that the rounded and the exact difference are
  both negative. Signed zeros are not distinguished.
\<close>

datatype jsnum = NaN | NegInf | Fin real | PosInf

text \<open>\<^verbatim>\<open>a < b\<close> and \<^verbatim>\<open>a <= b\<close>; \<^verbatim>\<open>a > b\<close> is \<open>js_lt b a\<close> and \<^verbatim>\<open>a >= b\<close> is \<open>js_le b a\<close>.\<close>

fun js_lt :: "jsnum \<Rightarrow> jsnum \<Rightarrow> bool" where
  "js_lt NaN b = False"
| "js_lt a NaN = False"
| "js_lt a NegInf = False"
| "js_lt PosInf b = False"
| "js_lt NegInf b = True"
| "js_lt (Fin a) (Fin b) = (a < b)"
| "js_lt (Fin a) PosInf = True"

fun js_le :: "jsnum \<Rightarrow> jsnum \<Rightarrow> bool" where
  "js_le NaN b = False"
| "js_le a NaN = False"
| "js_le NegInf b = True"
| "js_le a PosInf = True"
| "js_le PosInf b = False"
| "js_le (Fin a) (Fin b) = (a \<le> b)"
| "js_le (Fin a) NegInf = False"

definition js_gt :: "jsnum \<Rightarrow> jsnum \<Rightarrow> bool" where
  "js_gt a b = js_lt b a"

definition js_ge :: "jsnum \<Rightarrow> jsnum \<Rightarrow> bool" where
  "js_ge a b = js_le b a"

text \<open>Strict equality \<^verbatim>\<open>a === b\<close> on numbers: \<open>NaN\<close> equals nothing.\<close>

definition js_eq :: "jsnum \<Rightarrow> jsnum \<Rightarrow> bool" where
  "js_eq a b = (a \<noteq> NaN \<and> a = b)"

definition Math_max :: "jsnum \<Rightarrow> jsnum \<Rightarrow> jsnum" where
  "Math_max a b = (if a = NaN \<or> b = NaN then NaN else if js_lt a b then b else a)"

definition Math_min :: "jsnum \<Rightarrow> jsnum \<Rightarrow> jsnum" where
  "Math_min a b = (if a = NaN \<or> b = NaN then NaN else if js_lt b a then b else a)"

fun js_minus :: "jsnum \<Rightarrow> jsnum \<Rightarrow> jsnum" where
  "js_minus NaN b = NaN"
| "js_minus a NaN = NaN"
| "js_minus PosInf PosInf = NaN"
| "js_minus NegInf NegInf = NaN"
| "js_minus PosInf b = PosInf"
| "js_minus NegInf b = NegInf"
| "js_minus (Fin a) PosInf = NegInf"
| "js_minus (Fin a) NegInf = PosInf"
| "js_minus (Fin a) (Fin b) = Fin (a - b)"

text \<open>
  A field of a status payload is any JSON scalar or absent. Objects and arrays in the
  place of a number are outside the model.
\<close>

datatype jsval = JUndefined | JNull | JBool bool | JNumber jsnum | JString string

text \<open>
  What the page takes from its surroundings: \<^verbatim>\<open>integrationAPI.defaults.baseURL\<close> as the
  template string prints it, and the engine's conversion of a string to a number, which
  \<^verbatim>\<open>Number\<close> applies to a string argument.
\<close>

record env =
  baseURL :: string
  StringToNumber :: "string \<Rightarrow> jsnum"

fun Number :: "env \<Rightarrow> jsval \<Rightarrow> jsnum" where
  "Number env JUndefined = NaN"
| "Number env JNull = Fin 0"
| "Number env (JBool b) = (if b then Fin 1 else Fin 0)"
| "Number env (JNumber n) = n"
| "Number env (JString str) = StringToNumber env str"

text \<open>A string or null value is truthy when it is a non-empty string.\<close>

fun truthy :: "string option \<Rightarrow> bool" where
  "truthy None = False"
| "truthy (Some str) = (str \<noteq> [])"

text \<open>
  \<^verbatim>\<open>String(x).toLowerCase().includes(y)\<close>, on ASCII letters: a capital letter has a code
  from 65 to 90, and its small letter is 32 higher, which sets bit 5.
\<close>

fun toLowerChar :: "char \<Rightarrow> char" where
  "toLowerChar (Char b0 b1 b2 b3 b4 b5 b6 b7) =
     (if 65 \<le> (of_char (Char b0 b1 b2 b3 b4 b5 b6 b7) :: nat) \<and>
         (of_char (Char b0 b1 b2 b3 b4 b5 b6 b7) :: nat) \<le> 90
      then Char b0 b1 b2 b3 b4 True b6 b7
      else Char b0 b1 b2 b3 b4 b5 b6 b7)"

definition toLowerCase :: "string \<Rightarrow> string" where
  "toLowerCase str = map toLowerChar str"

fun js_includes :: "string \<Rightarrow> string \<Rightarrow> bool" where
  "js_includes [] part = (part = [])"
| "js_includes (c # str) part = (prefix part (c # str) \<or> js_includes str part)"

section \<open>Data of the mining page\<close>

text \<open>The payload of \<^verbatim>\<open>/api/mining-status/<job>\<close> as the poll callback reads it.\<close>

record phase_counter =
  current :: jsval
  total :: jsval

record phases =
  search_trials :: "phase_counter option"
  sampling :: "phase_counter option"
  saving :: "phase_counter option"

record status_data =
  data_progress :: jsval
  data_message :: "string option"
  data_status :: "string option"
  data_phases :: "phases option"

text \<open>The React state \<^verbatim>\<open>phaseDetail\<close> and \<^verbatim>\<open>miningResult\<close>.\<close>

record phase_detail =
  pd_current :: jsnum
  pd_total :: jsnum
  phase :: string

record mining_result =
  downloadUrl :: string
  patternsCount :: "jsnum option"

text \<open>The body of the response of \<^verbatim>\<open>POST /api/mine-patterns\<close>, and a rejection of it.\<close>

record mine_response =
  download_url :: "string option"
  patterns_count :: "jsnum option"

record request_error =
  err_detail :: "string option"
  err_message :: "string option"

text \<open>
  A history entry of \<^verbatim>\<open>api/history\<close>. \<open>imported_on\<close> is the entry's time in
  milliseconds as \<^verbatim>\<open>dayjs(h.imported_on)\<close> reads it, \<open>None\<close> for an invalid date.
\<close>

record job_record =
  job_id :: string
  writer_type :: string
  imported_on :: "int option"

record params =
  minPatternSize :: string
  maxPatternSize :: string
  minNeighborhoodSize :: string
  maxNeighborhoodSize :: string
  nNeighborhoods :: string
  nTrials :: string
  outBatchSize :: string
  searchStrategy :: string
  sampleMethod :: string
  graphType :: string
  outputFormat :: string

datatype toast = Toast_error string "string option" | Toast_success string

datatype request = POST string "(string \<times> string) list" | GET string

text \<open>
  The component's state: the \<^verbatim>\<open>useState\<close> cells and \<^verbatim>\<open>useRef\<close> cells of \<^verbatim>\<open>Mine\<close>
  (without \<^verbatim>\<open>history\<close> and \<^verbatim>\<open>loadingHistory\<close>, which only the rendering of the graph's name
  reads), followed by what the component has done to its surroundings: the running intervals
  (each with the job id its callback closed over), the variable \<^verbatim>\<open>intervalId\<close> and the
  dependencies of the mounted polling effect, the requests in flight with the values their
  continuations closed over, and the logs of requests, toasts and console lines.
\<close>

record mine_state =
  jobId :: string
  params :: params
  isMining :: bool
  miningResult :: "mining_result option"
  miningProgress :: jsnum
  miningStatus :: string
  phaseDetail :: "phase_detail option"
  pollInterval :: "nat option"
  pollIntervalRef :: "nat option"
  completedShownRef :: bool
  maxProgressSeenRef :: jsnum
  timers :: "(nat \<times> string) list"
  nextTimer :: nat
  effectInterval :: "nat option"
  effectDeps :: "bool \<times> string"
  pendingStatus :: "(nat \<times> nat \<times> string) list"
  pendingMine :: "(nat \<times> string \<times> nat option) list"
  nextRequest :: nat
  requests :: "request list"
  toasts :: "toast list"
  console :: "string list"

section \<open>Job selection (\<^verbatim>\<open>initData\<close>)\<close>

text \<open>
  \<^verbatim>\<open>dayjs(a).diff(dayjs(b), 'second')\<close>: the difference in milliseconds divided by 1000
  and truncated towards zero; \<open>None\<close> stands for \<open>NaN\<close>.
\<close>

definition diff_second :: "int option \<Rightarrow> int option \<Rightarrow> int option" where
  "diff_second a b =
     (case (a, b) of
        (Some x, Some y) \<Rightarrow> Some (if x - y < 0 then - ((y - x) div 1000) else (x - y) div 1000)
      | _ \<Rightarrow> None)"

text \<open>\<^verbatim>\<open>h.writer_type === 'networkx' && Math.abs(dayjs(h.imported_on).diff(...)) < 60\<close>\<close>

definition brother_of :: "job_record \<Rightarrow> job_record \<Rightarrow> bool" where
  "brother_of currentJob h =
     (writer_type h = ''networkx'' \<and>
      (case diff_second (imported_on h) (imported_on currentJob) of
         Some d \<Rightarrow> abs d < 60
       | None \<Rightarrow> False))"

text \<open>
  Lines 81 to 108: the job id \<^verbatim>\<open>initData\<close> passes to \<^verbatim>\<open>setJobId\<close>, or \<open>None\<close> when it does
  not call \<^verbatim>\<open>setJobId\<close>. The history is \<open>None\<close> when the response carries none.
\<close>

definition initData :: "string option \<Rightarrow> string option \<Rightarrow> job_record list option \<Rightarrow> string option" where
  "initData urlJobId selected_job_id history =
     (let targetJobId = (if truthy urlJobId then urlJobId else selected_job_id) in
      case history of
        None \<Rightarrow> None
      | Some hs \<Rightarrow>
          if length hs > 0 then
            (let bestMatch =
               (if truthy targetJobId then
                  (case find (\<lambda>h. Some (job_id h) = targetJobId) hs of
                     Some currentJob \<Rightarrow>
                       if writer_type currentJob = ''mork'' then
                         (case find (brother_of currentJob) hs of
                            Some brother \<Rightarrow> Some brother
                          | None \<Rightarrow> Some currentJob)
                       else Some currentJob
                   | None \<Rightarrow> None)
                else None);
                 bestMatch' =
               (case bestMatch of
                  Some b \<Rightarrow> Some b
                | None \<Rightarrow>
                    (case find (\<lambda>h. writer_type h = ''networkx'') hs of
                       Some n \<Rightarrow> Some n
                     | None \<Rightarrow> Some (hd hs)))
             in map_option job_id bestMatch')
          else None)"

section \<open>Starting a run (\<^verbatim>\<open>startMining\<close>)\<close>

definition clearInterval :: "nat \<Rightarrow> (nat \<times> string) list \<Rightarrow> (nat \<times> string) list" where
  "clearInterval i ts = filter (\<lambda>t. fst t \<noteq> i) ts"

text \<open>The form data of lines 139 to 151, in the order of the \<^verbatim>\<open>append\<close> calls.\<close>

definition formData :: "mine_state \<Rightarrow> (string \<times> string) list" where
  "formData s =
     [(''job_id'', jobId s),
      (''min_pattern_size'', minPatternSize (params s)),
      (''max_pattern_size'', maxPatternSize (params s)),
      (''min_neighborhood_size'', minNeighborhoodSize (params s)),
      (''max_neighborhood_size'', maxNeighborhoodSize (params s)),
      (''n_neighborhoods'', nNeighborhoods (params s)),
      (''n_trials'', nTrials (params s)),
      (''out_batch_size'', outBatchSize (params s)),
      (''search_strategy'', searchStrategy (params s)),
      (''sample_method'', sampleMethod (params s)),
      (''graph_type'', graphType (params s)),
      (''graph_output_format'', outputFormat (params s))]"

text \<open>
  Lines 127 to 154, up to the \<^verbatim>\<open>await\<close>: the only check is the one on \<^verbatim>\<open>jobId\<close>. The
  continuation keeps the \<^verbatim>\<open>jobId\<close> and \<^verbatim>\<open>pollInterval\<close> of the render that made it.
\<close>

definition startMining :: "mine_state \<Rightarrow> mine_state" where
  "startMining s =
     (if jobId s = [] then
        s\<lparr>toasts := toasts s @ [Toast_error ''Please provide a Job ID'' None]\<rparr>
      else
        s\<lparr>isMining := True,
          miningResult := None,
          completedShownRef := False,
          requests := requests s @ [POST ''/api/mine-patterns'' (formData s)],
          pendingMine := pendingMine s @ [(nextRequest s, jobId s, pollInterval s)],
          nextRequest := Suc (nextRequest s)\<rparr>)"

text \<open>Lines 174 to 181, the \<^verbatim>\<open>finally\<close> block.\<close>

definition startMining_finally :: "nat option \<Rightarrow> mine_state \<Rightarrow> mine_state" where
  "startMining_finally closurePollInterval s =
     (let s1 = s\<lparr>isMining := False\<rparr> in
      case closurePollInterval of
        None \<Rightarrow> s1
      | Some i \<Rightarrow> s1\<lparr>timers := clearInterval i (timers s1), pollInterval := None\<rparr>)"

text \<open>Lines 169 to 173, the \<^verbatim>\<open>catch\<close> block, followed by \<^verbatim>\<open>finally\<close>.\<close>

definition startMining_rejected :: "nat option \<Rightarrow> request_error \<Rightarrow> mine_state \<Rightarrow> mine_state" where
  "startMining_rejected closurePollInterval error s =
     startMining_finally closurePollInterval
       (s\<lparr>console := console s @ [''Mining failed:''],
          toasts := toasts s @
            [Toast_error ''Mining failed''
               (Some (if truthy (err_detail error) then the (err_detail error)
                      else if truthy (err_message error) then the (err_message error)
                      else ''Unknown error occurred''))]\<rparr>)"

text \<open>
  Lines 156 to 167, after the \<^verbatim>\<open>await\<close> has resolved, followed by \<^verbatim>\<open>finally\<close>. A response
  without a body makes \<^verbatim>\<open>response.data.download_url\<close> throw a \<^verbatim>\<open>TypeError\<close>, which the
  \<^verbatim>\<open>catch\<close> block receives; its message is the engine's.
\<close>

definition TypeError :: request_error where
  "TypeError = \<lparr>err_detail = None, err_message = Some (''Cannot read properties of null (reading '' @ [CHR 0x27] @ ''download_url'' @ [CHR 0x27] @ '')'')\<rparr>"

definition startMining_resolved ::
  "env \<Rightarrow> string \<Rightarrow> nat option \<Rightarrow> mine_response option \<Rightarrow> mine_state \<Rightarrow> mine_state" where
  "startMining_resolved env closureJobId closurePollInterval response s =
     (case response of
        None \<Rightarrow> startMining_rejected closurePollInterval TypeError s
      | Some rdata \<Rightarrow>
          (let downloadLink =
                 (if truthy (download_url rdata) then the (download_url rdata)
                  else baseURL env @ ''/api/download-result?job_id='' @ closureJobId);
               s1 = s\<lparr>miningResult :=
                        Some \<lparr>downloadUrl = downloadLink, patternsCount = patterns_count rdata\<rparr>\<rparr>;
               s2 = (if \<not> completedShownRef s1
                     then s1\<lparr>toasts := toasts s1 @ [Toast_success ''Mining completed successfully!'']\<rparr>
                     else s1)
           in startMining_finally closurePollInterval s2))"

section \<open>The polling effect\<close>

text \<open>
  The updater of lines 213, 220 and 222:
  \<^verbatim>\<open>prev && prev.phase === name && prev.current > c.current ? prev : {current, total, phase}\<close>
\<close>

definition phaseUpdate :: "string \<Rightarrow> jsnum \<Rightarrow> jsnum \<Rightarrow> phase_detail option \<Rightarrow> phase_detail option" where
  "phaseUpdate name cur tot prev =
     (case prev of
        None \<Rightarrow> Some \<lparr>pd_current = cur, pd_total = tot, phase = name\<rparr>
      | Some p \<Rightarrow>
          if phase p = name \<and> js_gt (pd_current p) cur then Some p
          else Some \<lparr>pd_current = cur, pd_total = tot, phase = name\<rparr>)"

text \<open>
  \<^verbatim>\<open>c && typeof c.current === "number" && typeof c.total === "number"\<close>, giving the two
  numbers.
\<close>

fun numeric :: "phase_counter option \<Rightarrow> (jsnum \<times> jsnum) option" where
  "numeric None = None"
| "numeric (Some c) =
     (case current c of
        JNumber cur \<Rightarrow> (case total c of JNumber tot \<Rightarrow> Some (cur, tot) | _ \<Rightarrow> None)
      | _ \<Rightarrow> None)"

text \<open>
  Lines 211 to 223: the phase detail after a snapshot with a \<^verbatim>\<open>phases\<close> object, from the
  clamped progress and the previous phase detail. When no branch applies the state is
  not set, so the previous value stays.
\<close>

definition classifyPhase :: "env \<Rightarrow> jsnum \<Rightarrow> phases \<Rightarrow> phase_detail option \<Rightarrow> phase_detail option" where
  "classifyPhase env progress ph prev =
     (if js_lt progress (Fin 20) then
        (case numeric (sampling ph) of
           Some (cur, tot) \<Rightarrow>
             if js_gt tot (Fin 1) then phaseUpdate ''sampling'' cur tot prev else None
         | None \<Rightarrow> None)
      else if js_ge progress (Fin 20) \<and> js_lt progress (Fin 95) \<and>
              (case search_trials ph of
                 Some search \<Rightarrow> js_le (Number env (total search)) (Fin 1)
               | None \<Rightarrow> False) then None
      else if js_ge progress (Fin 95) \<and> numeric (saving ph) \<noteq> None then
        (case numeric (saving ph) of
           Some (cur, tot) \<Rightarrow> phaseUpdate ''saving'' cur tot prev
         | None \<Rightarrow> prev)
      else if js_ge progress (Fin 20) \<and>
              (case numeric (search_trials ph) of
                 Some (cur, tot) \<Rightarrow> js_gt tot (Fin 1)
               | None \<Rightarrow> False) then
        (case numeric (search_trials ph) of
           Some (cur, tot) \<Rightarrow> phaseUpdate ''search_trials'' cur tot prev
         | None \<Rightarrow> prev)
      else prev)"

text \<open>
  Line 200. \<^verbatim>\<open>Number\<close> never returns null or undefined, so \<^verbatim>\<open>?? 0\<close> leaves its value as
  it is.
\<close>

definition clampProgress :: "env \<Rightarrow> status_data \<Rightarrow> jsnum" where
  "clampProgress env data = Math_min (Fin 100) (Math_max (Fin 0) (Number env (data_progress data)))"

text \<open>\<^verbatim>\<open>progress >= prevMax - 0.5\<close>\<close>

definition notRegressing :: "jsnum \<Rightarrow> jsnum \<Rightarrow> bool" where
  "notRegressing progress prevMax = js_ge progress (js_minus prevMax (Fin (1/2)))"

text \<open>\<^verbatim>\<open>data.status === "completed" || progress >= 100\<close>\<close>

definition completed :: "env \<Rightarrow> status_data \<Rightarrow> bool" where
  "completed env data = (data_status data = Some ''completed'' \<or> js_ge (clampProgress env data) (Fin 100))"

text \<open>
  Lines 200 to 241: the interval's callback after its request has resolved with a truthy
  payload. \<open>closureJobId\<close> is the \<^verbatim>\<open>jobId\<close> of the effect that made the interval.
\<close>

definition pollTick :: "env \<Rightarrow> string \<Rightarrow> status_data \<Rightarrow> mine_state \<Rightarrow> mine_state" where
  "pollTick env closureJobId data s =
     (let progress = clampProgress env data;
          prevMax = maxProgressSeenRef s;
          newMax = Math_max prevMax progress;
          s1 = s\<lparr>maxProgressSeenRef := newMax\<rparr>;
          s2 = s1\<lparr>miningProgress := Math_max (miningProgress s1) progress\<rparr>;
          s3 = (case data_message data of
                  Some m \<Rightarrow> if notRegressing progress prevMax then s2\<lparr>miningStatus := m\<rparr> else s2
                | None \<Rightarrow> s2);
          s4 = (case data_phases data of
                  Some ph \<Rightarrow>
                    if notRegressing progress prevMax
                    then s3\<lparr>phaseDetail := classifyPhase env progress ph (phaseDetail s3)\<rparr>
                    else s3
                | None \<Rightarrow> s3)
      in case pollIntervalRef s4 of
           Some i \<Rightarrow>
             if completed env data then
               s4\<lparr>timers := clearInterval i (timers s4),
                  pollIntervalRef := None,
                  pollInterval := None,
                  miningProgress := Fin 100,
                  miningStatus := (if truthy (data_message data) then the (data_message data)
                                   else ''Mining completed successfully!''),
                  miningResult :=
                    Some \<lparr>downloadUrl = baseURL env @ ''/api/download-result?job_id='' @ closureJobId,
                          patternsCount = None\<rparr>,
                  isMining := False,
                  completedShownRef := True,
                  toasts := toasts s4 @ [Toast_success ''Mining completed successfully!'']\<rparr>
             else s4
         | None \<Rightarrow> s4)"

text \<open>Lines 195 to 245: the callback on a response (a falsy payload is passed over).\<close>

fun pollResolved :: "env \<Rightarrow> string \<Rightarrow> status_data option \<Rightarrow> mine_state \<Rightarrow> mine_state" where
  "pollResolved env closureJobId None s = s"
| "pollResolved env closureJobId (Some data) s = pollTick env closureJobId data s"

text \<open>Lines 243 to 245: the callback when the request fails.\<close>

definition pollFailed :: "mine_state \<Rightarrow> mine_state" where
  "pollFailed s = s\<lparr>console := console s @ [''Failed to poll progress'']\<rparr>"

text \<open>
  Lines 185 to 258, the effect with dependencies \<^verbatim>\<open>[isMining, jobId]\<close>. After a render in
  which a dependency has changed React runs the cleanup of the mounted effect (lines 252
  to 257) and then the effect's body (lines 186 to 250). Interval ids are positive, so
  an id is truthy.
\<close>

definition effectCleanup :: "mine_state \<Rightarrow> mine_state" where
  "effectCleanup s =
     (case effectInterval s of
        None \<Rightarrow> s
      | Some i \<Rightarrow> s\<lparr>timers := clearInterval i (timers s), pollIntervalRef := None\<rparr>)"

definition effectBody :: "mine_state \<Rightarrow> mine_state" where
  "effectBody s =
     (if isMining s \<and> jobId s \<noteq> [] then
        (let intervalId = nextTimer s in
         s\<lparr>miningProgress := Fin 0,
           miningStatus := ''Starting miner...'',
           phaseDetail := None,
           maxProgressSeenRef := Fin 0,
           timers := timers s @ [(intervalId, jobId s)],
           nextTimer := Suc intervalId,
           pollIntervalRef := Some intervalId,
           pollInterval := Some intervalId,
           effectInterval := Some intervalId\<rparr>)
      else s\<lparr>effectInterval := None\<rparr>)"

definition pollingEffect :: "mine_state \<Rightarrow> mine_state" where
  "pollingEffect s =
     (if effectDeps s = (isMining s, jobId s) then s
      else (effectBody (effectCleanup s))\<lparr>effectDeps := (isMining s, jobId s)\<rparr>)"

text \<open>
  Lines 471 and 502: whether the phase line is rendered, and with which phase. The line
  is part of the progress card, which is rendered only while \<^verbatim>\<open>isMining\<close> is true.
\<close>

definition phaseShown :: "mine_state \<Rightarrow> string option" where
  "phaseShown s =
     (if isMining s then
        (case phaseDetail s of
           None \<Rightarrow> None
         | Some pd \<Rightarrow>
             if js_gt (pd_total pd) (Fin 1) \<and>
                \<not> (phase pd = ''search_trials'' \<and> js_eq (pd_current pd) (Fin 0) \<and> js_eq (pd_total pd) (Fin 1)) \<and>
                (phase pd \<noteq> ''search_trials'' \<or> \<not> js_includes (toLowerCase (miningStatus s)) ''sampling'')
             then Some (phase pd) else None)
      else None)"

section \<open>The component as a transition system\<close>

text \<open>
  Everything that can happen to the mounted component is an event: the history request
  of \<^verbatim>\<open>initData\<close> returning or failing, an edit of the form, a click on the start button
  (rendered only while \<^verbatim>\<open>isMining\<close> is false, disabled while \<^verbatim>\<open>jobId\<close> is empty), an interval
  firing, and a status or start request in flight resolving or failing. Each handler
  runs to its end before the next event; the polling effect runs after the render that
  follows it.
\<close>

datatype event =
    History_Loaded "string option" "string option" "job_record list option"
  | History_Failed
  | Edit_Params params
  | Click_Start
  | Interval_Fires nat
  | Status_Response nat "status_data option"
  | Status_Failure nat
  | Mine_Response nat "mine_response option"
  | Mine_Failure nat request_error

definition initial :: "string \<Rightarrow> mine_state" where
  "initial urlJobId =
     \<lparr>jobId = urlJobId,
      params = \<lparr>minPatternSize = ''3'', maxPatternSize = ''5'', minNeighborhoodSize = ''3'',
                maxNeighborhoodSize = ''5'', nNeighborhoods = ''500'', nTrials = ''100'',
                outBatchSize = ''3'', searchStrategy = ''greedy'', sampleMethod = ''tree'',
                graphType = ''directed'', outputFormat = ''representative''\<rparr>,
      isMining = False,
      miningResult = None,
      miningProgress = Fin 0,
      miningStatus = ''Initializing...'',
      phaseDetail = None,
      pollInterval = None,
      pollIntervalRef = None,
      completedShownRef = False,
      maxProgressSeenRef = Fin 0,
      timers = [],
      nextTimer = 1,
      effectInterval = None,
      effectDeps = (False, urlJobId),
      pendingStatus = [],
      pendingMine = [],
      nextRequest = 0,
      requests = [],
      toasts = [],
      console = []\<rparr>"

text \<open>The interval's callback up to its \<^verbatim>\<open>await\<close>: the status request is sent.\<close>

definition intervalFires :: "nat \<Rightarrow> mine_state \<Rightarrow> mine_state" where
  "intervalFires i s =
     (case map_of (timers s) i of
        None \<Rightarrow> s
      | Some closureJobId \<Rightarrow>
          s\<lparr>requests := requests s @ [GET (''/api/mining-status/'' @ closureJobId)],
            pendingStatus := pendingStatus s @ [(nextRequest s, i, closureJobId)],
            nextRequest := Suc (nextRequest s)\<rparr>)"

definition dropPending :: "nat \<Rightarrow> (nat \<times> 'a) list \<Rightarrow> (nat \<times> 'a) list" where
  "dropPending r ps = filter (\<lambda>p. fst p \<noteq> r) ps"

fun step :: "env \<Rightarrow> event \<Rightarrow> mine_state \<Rightarrow> mine_state" where
  "step env (History_Loaded urlJobId selected_job_id history) s =
     (case initData urlJobId selected_job_id history of
        None \<Rightarrow> s
      | Some j \<Rightarrow> pollingEffect (s\<lparr>jobId := j\<rparr>))"
| "step env History_Failed s =
     s\<lparr>console := console s @ [''Failed to load history from loader''],
       toasts := toasts s @ [Toast_error ''Connection error'' (Some ''Could not fetch your graph library.'')]\<rparr>"
| "step env (Edit_Params p) s = s\<lparr>params := p\<rparr>"
| "step env Click_Start s =
     (if isMining s \<or> jobId s = [] then s else pollingEffect (startMining s))"
| "step env (Interval_Fires i) s = intervalFires i s"
| "step env (Status_Response r payload) s =
     (case map_of (pendingStatus s) r of
        None \<Rightarrow> s
      | Some (i, closureJobId) \<Rightarrow>
          pollingEffect
            (pollResolved env closureJobId payload (s\<lparr>pendingStatus := dropPending r (pendingStatus s)\<rparr>)))"
| "step env (Status_Failure r) s =
     (case map_of (pendingStatus s) r of
        None \<Rightarrow> s
      | Some (i, closureJobId) \<Rightarrow> pollFailed (s\<lparr>pendingStatus := dropPending r (pendingStatus s)\<rparr>))"
| "step env (Mine_Response r response) s =
     (case map_of (pendingMine s) r of
        None \<Rightarrow> s
      | Some (closureJobId, closurePollInterval) \<Rightarrow>
          pollingEffect
            (startMining_resolved env closureJobId closurePollInterval response
               (s\<lparr>pendingMine := dropPending r (pendingMine s)\<rparr>)))"
| "step env (Mine_Failure r error) s =
     (case map_of (pendingMine s) r of
        None \<Rightarrow> s
      | Some (closureJobId, closurePollInterval) \<Rightarrow>
          pollingEffect
            (startMining_rejected closurePollInterval error
               (s\<lparr>pendingMine := dropPending r (pendingMine s)\<rparr>)))"

text \<open>A run of the component over a sequence of events, first event first.\<close>

fun run :: "env \<Rightarrow> event list \<Rightarrow> mine_state \<Rightarrow> mine_state" where
  "run env [] s = s"
| "run env (e # es) s = run env es (step env e s)"

section \<open>The words of the specification\<close>


text \<open>
  "The counter has total > 1": the counter is present, its \<^verbatim>\<open>current\<close> and \<^verbatim>\<open>total\<close> are
  numbers, and the total is greater than 1. "A counter is present with total <= 1": the
  counter is present and \<^verbatim>\<open>Number(total) <= 1\<close>.
\<close>

definition subdivided :: "phase_counter option \<Rightarrow> bool" where
  "subdivided c = (case numeric c of Some (cur, tot) \<Rightarrow> js_gt tot (Fin 1) | None \<Rightarrow> False)"

definition total_at_most_1 :: "env \<Rightarrow> phase_counter option \<Rightarrow> bool" where
  "total_at_most_1 env c = (case c of Some x \<Rightarrow> js_le (Number env (total x)) (Fin 1) | None \<Rightarrow> False)"

text \<open>
  An event that is neither a new click on the start button nor the end of the start
  request \<open>q\<close>: what can happen between a poll tick and the "later resolution" of the
  start request of the same run.
\<close>

fun leaves_call :: "nat \<Rightarrow> event \<Rightarrow> bool" where
  "leaves_call q Click_Start = False"
| "leaves_call q (Mine_Response r response) = (r \<noteq> q)"
| "leaves_call q (Mine_Failure r error) = (r \<noteq> q)"
| "leaves_call q e = True"

text \<open>
  The states between two events: the polling effect has run for the current
  \<^verbatim>\<open>isMining\<close> and \<^verbatim>\<open>jobId\<close>, the only interval that can be running is the one of the
  mounted effect, and that effect has an interval only while a run is active.
\<close>

definition settled :: "mine_state \<Rightarrow> bool" where
  "settled s =
     (effectDeps s = (isMining s, jobId s) \<and>
      list_all (\<lambda>t. effectInterval s = Some (fst t)) (timers s) \<and>
      (effectInterval s = None \<or> isMining s \<and> jobId s \<noteq> []))"

section \<open>Example inputs\<close>

definition env0 :: env where
  "env0 = \<lparr>baseURL = ''http://host'', StringToNumber = (\<lambda>str. NaN)\<rparr>"





definition older_networkx :: job_record where
  "older_networkx = \<lparr>job_id = ''older'', writer_type = ''networkx'', imported_on = Some 1700000000000\<rparr>"

definition newer_networkx :: job_record where
  "newer_networkx = \<lparr>job_id = ''newer'', writer_type = ''networkx'', imported_on = Some 1700086400000\<rparr>"

definition counter :: "real \<Rightarrow> real \<Rightarrow> phase_counter option" where
  "counter cur tot = Some \<lparr>current = JNumber (Fin cur), total = JNumber (Fin tot)\<rparr>"

definition snapshot :: "real \<Rightarrow> string \<Rightarrow> string \<Rightarrow> phases option \<Rightarrow> status_data" where
  "snapshot p msg st ph =
     \<lparr>data_progress = JNumber (Fin p), data_message = Some msg, data_status = Some st, data_phases = ph\<rparr>"

text \<open>A payload that carries a message and nothing else.\<close>

definition no_progress :: status_data where
  "no_progress =
     \<lparr>data_progress = JUndefined, data_message = Some ''Working'', data_status = None, data_phases = None\<rparr>"

text \<open>
  A click on the start button and the first firing of the interval: the start request
  is request 0, the interval is interval 1 and its status request is request 1.
\<close>

definition polling :: "event list" where
  "polling = [Click_Start, Interval_Fires 1]"

definition sampling_at_10 :: "event list" where
  "sampling_at_10 =
     polling @
     [Status_Response 1 (Some (snapshot 10 ''Sampling neighborhoods'' ''running''
        (Some \<lparr>search_trials = None, sampling = counter 3 10, saving = None\<rparr>)))]"

definition searching_at_80 :: "event list" where
  "searching_at_80 = polling @ [Status_Response 1 (Some (snapshot 80 ''Searching'' ''running'' None))]"

definition reversed_sizes :: params where
  "reversed_sizes =
     \<lparr>minPatternSize = ''5'', maxPatternSize = ''3'', minNeighborhoodSize = ''3'',
      maxNeighborhoodSize = ''5'', nNeighborhoods = ''500'', nTrials = ''100'',
      outBatchSize = ''3'', searchStrategy = ''greedy'', sampleMethod = ''tree'',
      graphType = ''directed'', outputFormat = ''representative''\<rparr>"

definition zip_response :: mine_response where
  "zip_response = \<lparr>download_url = Some ''http://host/files/job-1.zip'', patterns_count = Some (Fin 12)\<rparr>"

definition network_error :: request_error where
  "network_error = \<lparr>err_detail = None, err_message = Some ''Network Error''\<rparr>"

text \<open>
  A first run whose interval has sent status request 1, ended by its start request;
  then a second run, started while request 1 is still in flight.
\<close>

definition second_run :: "event list" where
  "second_run = polling @ [Mine_Response 0 (Some zip_response), Click_Start]"

section \<open>Evaluation\<close>

lemmas handler_defs =
  env0_def initial_def startMining_def formData_def pollingEffect_def effectCleanup_def effectBody_def
  intervalFires_def pollTick_def clampProgress_def completed_def notRegressing_def Math_max_def
  Math_min_def js_ge_def js_gt_def js_eq_def dropPending_def clearInterval_def classifyPhase_def
  phaseUpdate_def phaseShown_def startMining_resolved_def startMining_rejected_def
  startMining_finally_def pollFailed_def counter_def snapshot_def no_progress_def polling_def
  sampling_at_10_def searching_at_80_def reversed_sizes_def zip_response_def network_error_def
  second_run_def toLowerCase_def Let_def

section \<open>Properties of the job selection\<close>








text \<open>
  What the fallback of lines 102 to 104 does: when no requested id is given or none
  matches, the first networkx entry in the order of the list is taken, else the first
  entry; an empty or missing history selects nothing.
\<close>

lemma initData_fallback:
  assumes "hs \<noteq> []"
      and "\<not> truthy (if truthy urlJobId then urlJobId else selected_job_id) \<or>
           find (\<lambda>h. Some (job_id h) = (if truthy urlJobId then urlJobId else selected_job_id)) hs = None"
  shows "initData urlJobId selected_job_id (Some hs) =
           (case find (\<lambda>h. writer_type h = ''networkx'') hs of
              Some n \<Rightarrow> Some (job_id n)
            | None \<Rightarrow> Some (job_id (hd hs)))"
  using assms by (auto simp: initData_def Let_def split: option.splits)

lemma initData_empty:
  "initData urlJobId selected_job_id (Some []) = None"
  "initData urlJobId selected_job_id None = None"
  by (simp_all add: initData_def Let_def)

text \<open>
  C7. With no requested id, the fallback is claimed to take the most recent networkx
  entry. On a history that lists an older networkx entry before one imported a day
  later, the code passes the older entry's id to \<^verbatim>\<open>setJobId\<close>: \<^verbatim>\<open>find\<close> takes the first
  networkx entry of the list and no import time is compared.
\<close>

theorem fallback_takes_first_networkx_not_most_recent:
  "initData None None (Some [older_networkx, newer_networkx]) = Some ''older'' \<and>
   imported_on older_networkx = Some 1700000000000 \<and>
   imported_on newer_networkx = Some 1700086400000"
  by (simp add: initData_def older_networkx_def newer_networkx_def)

section \<open>Properties of starting a run\<close>

text \<open>
  C4 (amended). \<^verbatim>\<open>startMining\<close> checks the job id and nothing else: with an empty job id it
  shows a toast and sends nothing; with a job id it sends the start request with the
  form's strings as they are, whatever the pattern sizes.
\<close>

theorem start_request_checks_only_job_id:
  "(jobId s = [] \<longrightarrow>
      requests (startMining s) = requests s \<and>
      toasts (startMining s) = toasts s @ [Toast_error ''Please provide a Job ID'' None]) \<and>
   (jobId s \<noteq> [] \<longrightarrow>
      requests (startMining s) = requests s @
        [POST ''/api/mine-patterns''
           [(''job_id'', jobId s),
            (''min_pattern_size'', minPatternSize (params s)),
            (''max_pattern_size'', maxPatternSize (params s)),
            (''min_neighborhood_size'', minNeighborhoodSize (params s)),
            (''max_neighborhood_size'', maxNeighborhoodSize (params s)),
            (''n_neighborhoods'', nNeighborhoods (params s)),
            (''n_trials'', nTrials (params s)),
            (''out_batch_size'', outBatchSize (params s)),
            (''search_strategy'', searchStrategy (params s)),
            (''sample_method'', sampleMethod (params s)),
            (''graph_type'', graphType (params s)),
            (''graph_output_format'', outputFormat (params s))]] \<and>
      toasts (startMining s) = toasts s)"
  by (simp add: startMining_def formData_def)

theorem start_request_checks_only_job_id_witness:
  "requests (startMining (initial [])) = [] \<and>
   toasts (startMining (initial [])) = [Toast_error ''Please provide a Job ID'' None] \<and>
   requests (startMining (initial ''job-1'')) =
     [POST ''/api/mine-patterns''
        [(''job_id'', ''job-1''), (''min_pattern_size'', ''3''), (''max_pattern_size'', ''5''),
         (''min_neighborhood_size'', ''3''), (''max_neighborhood_size'', ''5''),
         (''n_neighborhoods'', ''500''), (''n_trials'', ''100''), (''out_batch_size'', ''3''),
         (''search_strategy'', ''greedy''), (''sample_method'', ''tree''),
         (''graph_type'', ''directed''), (''graph_output_format'', ''representative'')]]"
  using start_request_checks_only_job_id[of "initial []"]
        start_request_checks_only_job_id[of "initial ''job-1''"]
  by (simp add: initial_def)

text \<open>
  C4, as stated, fails: with minimum pattern size 5 and maximum pattern size 3 typed into
  the form, a click on the start button sends the start request with these values and
  shows no error.
\<close>

theorem start_request_sent_with_max_below_min:
  "requests (run env0 [Edit_Params reversed_sizes, Click_Start] (initial ''job-1'')) =
     [POST ''/api/mine-patterns''
        [(''job_id'', ''job-1''), (''min_pattern_size'', ''5''), (''max_pattern_size'', ''3''),
         (''min_neighborhood_size'', ''3''), (''max_neighborhood_size'', ''5''),
         (''n_neighborhoods'', ''500''), (''n_trials'', ''100''), (''out_batch_size'', ''3''),
         (''search_strategy'', ''greedy''), (''sample_method'', ''tree''),
         (''graph_type'', ''directed''), (''graph_output_format'', ''representative'')]] \<and>
   toasts (run env0 [Edit_Params reversed_sizes, Click_Start] (initial ''job-1'')) = [] \<and>
   isMining (run env0 [Edit_Params reversed_sizes, Click_Start] (initial ''job-1''))"
  by (simp add: handler_defs)

section \<open>Properties of the poll callback\<close>

lemma js_ge_not_lt: "js_ge a b \<Longrightarrow> \<not> js_lt a b"
  by (cases a; cases b) (auto simp: js_ge_def)

lemma js_lt_trans_fin: "js_lt a (Fin x) \<Longrightarrow> x \<le> y \<Longrightarrow> js_lt a (Fin y)"
  by (cases a) auto

lemma js_ge_trans_fin: "js_ge a (Fin x) \<Longrightarrow> y \<le> x \<Longrightarrow> js_ge a (Fin y)"
  by (cases a) (auto simp: js_ge_def)

lemma notRegressing_Fin: "notRegressing (Fin p) (Fin m) \<longleftrightarrow> m - 1/2 \<le> p"
  by (simp add: notRegressing_def js_ge_def)

lemma notRegressing_NaN: "\<not> notRegressing NaN m" "\<not> notRegressing p NaN"
  by (cases m; simp add: notRegressing_def js_ge_def; cases p; simp)+

text \<open>The state cells after the callback.\<close>

lemma phaseDetail_pollTick:
  "phaseDetail (pollTick env jid data s) =
     (case data_phases data of
        Some ph \<Rightarrow>
          if notRegressing (clampProgress env data) (maxProgressSeenRef s)
          then classifyPhase env (clampProgress env data) ph (phaseDetail s)
          else phaseDetail s
      | None \<Rightarrow> phaseDetail s)"
  by (simp add: pollTick_def Let_def split: option.splits)

lemma miningStatus_pollTick:
  "miningStatus (pollTick env jid data s) =
     (if completed env data \<and> pollIntervalRef s \<noteq> None then
        (if truthy (data_message data) then the (data_message data) else ''Mining completed successfully!'')
      else if notRegressing (clampProgress env data) (maxProgressSeenRef s) \<and> data_message data \<noteq> None
        then the (data_message data)
      else miningStatus s)"
  by (auto simp: pollTick_def Let_def split: option.splits)

lemma pollTick_running:
  assumes "\<not> (completed env data \<and> pollIntervalRef s \<noteq> None)"
  shows "isMining (pollTick env jid data s) = isMining s"
    and "jobId (pollTick env jid data s) = jobId s"
    and "effectDeps (pollTick env jid data s) = effectDeps s"
    and "miningProgress (pollTick env jid data s) = Math_max (miningProgress s) (clampProgress env data)"
    and "maxProgressSeenRef (pollTick env jid data s) = Math_max (maxProgressSeenRef s) (clampProgress env data)"
    and "miningResult (pollTick env jid data s) = miningResult s"
    and "toasts (pollTick env jid data s) = toasts s"
    and "timers (pollTick env jid data s) = timers s"
  using assms by (auto simp: pollTick_def Let_def split: option.splits)

lemma pollTick_final:
  assumes "completed env data" "pollIntervalRef s = Some k"
  shows "isMining (pollTick env jid data s) = False"
    and "jobId (pollTick env jid data s) = jobId s"
    and "effectDeps (pollTick env jid data s) = effectDeps s"
    and "effectInterval (pollTick env jid data s) = effectInterval s"
    and "miningProgress (pollTick env jid data s) = Fin 100"
    and "miningResult (pollTick env jid data s) =
           Some \<lparr>downloadUrl = baseURL env @ ''/api/download-result?job_id='' @ jid, patternsCount = None\<rparr>"
    and "toasts (pollTick env jid data s) = toasts s @ [Toast_success ''Mining completed successfully!'']"
    and "timers (pollTick env jid data s) = clearInterval k (timers s)"
    and "completedShownRef (pollTick env jid data s) = True"
    and "pendingMine (pollTick env jid data s) = pendingMine s"
  using assms by (auto simp: pollTick_def Let_def split: option.splits)

text \<open>
  A progress field that \<^verbatim>\<open>Number\<close> reads as a number, in or out of range, is clamped into
  0 to 100, and the displayed progress then never decreases and stays in range.
\<close>

lemma clampProgress_range:
  assumes "Number env (data_progress data) \<noteq> NaN"
  shows "\<exists>c. clampProgress env data = Fin c \<and> 0 \<le> c \<and> c \<le> 100"
  using assms
  by (cases "Number env (data_progress data)") (auto simp: clampProgress_def Math_max_def Math_min_def)

lemma clampProgress_NaN:
  "Number env (data_progress data) = NaN \<Longrightarrow> clampProgress env data = NaN"
  by (simp add: clampProgress_def Math_max_def Math_min_def)

lemma progress_monotone_when_numeric:
  assumes "Number env (data_progress data) \<noteq> NaN" "miningProgress s = Fin m" "0 \<le> m" "m \<le> 100"
  shows "\<exists>m'. miningProgress (pollTick env jid data s) = Fin m' \<and> m \<le> m' \<and> m' \<le> 100"
proof -
  from clampProgress_range[OF assms(1)] obtain c
    where c: "clampProgress env data = Fin c" "0 \<le> c" "c \<le> 100" by auto
  show ?thesis
  proof (cases "completed env data \<and> pollIntervalRef s \<noteq> None")
    case True
    then obtain k where "pollIntervalRef s = Some k" "completed env data" by auto
    from pollTick_final(5)[OF this(2,1)] assms(4) show ?thesis by simp
  next
    case False
    from pollTick_running(4)[OF False] c assms(2,3,4) show ?thesis
      by (auto simp: Math_max_def)
  qed
qed

lemma progress_NaN_when_not_numeric:
  assumes "Number env (data_progress data) = NaN" "data_status data \<noteq> Some ''completed''"
  shows "miningProgress (pollTick env jid data s) = NaN"
    and "maxProgressSeenRef (pollTick env jid data s) = NaN"
proof -
  have c: "clampProgress env data = NaN" using assms(1) by (rule clampProgress_NaN)
  then have "\<not> (completed env data \<and> pollIntervalRef s \<noteq> None)"
    using assms(2) by (simp add: completed_def js_ge_def)
  from pollTick_running(4,5)[OF this] c
  show "miningProgress (pollTick env jid data s) = NaN"
    and "maxProgressSeenRef (pollTick env jid data s) = NaN"
    by (simp_all add: Math_max_def)
qed

text \<open>
  C2. Displayed progress is claimed to be non-decreasing and within 0 to 100 also when a
  snapshot's progress field is missing. After a snapshot with progress 40, a snapshot
  without a progress field makes the displayed progress \<open>NaN\<close>; a later snapshot with
  progress 60 leaves it \<open>NaN\<close>.
\<close>

theorem missing_progress_displays_NaN:
  "miningProgress (run env0
      (polling @ [Status_Response 1 (Some (snapshot 40 ''Searching'' ''running'' None))])
      (initial ''job-1'')) = Fin 40 \<and>
   miningProgress (run env0
      (polling @ [Status_Response 1 (Some (snapshot 40 ''Searching'' ''running'' None)),
                  Interval_Fires 1, Status_Response 2 (Some no_progress)])
      (initial ''job-1'')) = NaN \<and>
   miningProgress (run env0
      (polling @ [Status_Response 1 (Some (snapshot 40 ''Searching'' ''running'' None)),
                  Interval_Fires 1, Status_Response 2 (Some no_progress),
                  Interval_Fires 1, Status_Response 3 (Some (snapshot 60 ''Searching'' ''running'' None))])
      (initial ''job-1'')) = NaN"
  by (simp add: handler_defs)

text \<open>
  C9 (amended). A snapshot that does not finalize the run updates the displayed message
  exactly when its clamped progress is at or above the previous maximum minus 0.5 and
  its message is not null, and leaves the message unchanged otherwise. A snapshot that
  finalizes the run (completed, with the poller still registered) sets the message to
  its own message, or to the completion text when it has none, whatever its progress.
\<close>

theorem message_updated_under_tolerance_unless_final:
  "(\<not> (completed env data \<and> pollIntervalRef s \<noteq> None) \<longrightarrow>
      miningStatus (pollTick env jid data s) =
        (if notRegressing (clampProgress env data) (maxProgressSeenRef s) \<and> data_message data \<noteq> None
         then the (data_message data) else miningStatus s)) \<and>
   (completed env data \<and> pollIntervalRef s \<noteq> None \<longrightarrow>
      miningStatus (pollTick env jid data s) =
        (if truthy (data_message data) then the (data_message data)
         else ''Mining completed successfully!''))"
  by (auto simp: miningStatus_pollTick)

theorem message_updated_under_tolerance_unless_final_witness:
  "miningStatus (pollTick env0 ''job-1'' (snapshot 79.5 ''Still searching'' ''running'' None)
      (run env0 searching_at_80 (initial ''job-1''))) = ''Still searching'' \<and>
   miningStatus (pollTick env0 ''job-1'' (snapshot 79 ''Sampling'' ''running'' None)
      (run env0 searching_at_80 (initial ''job-1''))) = ''Searching'' \<and>
   miningStatus (pollTick env0 ''job-1'' (snapshot 100 [] ''completed'' None)
      (run env0 searching_at_80 (initial ''job-1''))) = ''Mining completed successfully!''"
  using message_updated_under_tolerance_unless_final
          [of env0 "snapshot 79.5 ''Still searching'' ''running'' None"
              "run env0 searching_at_80 (initial ''job-1'')" "''job-1''"]
        message_updated_under_tolerance_unless_final
          [of env0 "snapshot 79 ''Sampling'' ''running'' None"
              "run env0 searching_at_80 (initial ''job-1'')" "''job-1''"]
        message_updated_under_tolerance_unless_final
          [of env0 "snapshot 100 [] ''completed'' None"
              "run env0 searching_at_80 (initial ''job-1'')" "''job-1''"]
  by (simp add: handler_defs)

text \<open>
  C9, as stated, fails: after a snapshot at progress 80, a snapshot that reports
  completion with progress 50, below the threshold of 79.5, replaces the message.
\<close>

theorem completed_snapshot_below_threshold_sets_message:
  "miningStatus (run env0 searching_at_80 (initial ''job-1'')) = ''Searching'' \<and>
   maxProgressSeenRef (run env0 searching_at_80 (initial ''job-1'')) = Fin 80 \<and>
   \<not> notRegressing (clampProgress env0 (snapshot 50 ''Done'' ''completed'' None)) (Fin 80) \<and>
   miningStatus (run env0
      (searching_at_80 @ [Interval_Fires 1, Status_Response 2 (Some (snapshot 50 ''Done'' ''completed'' None))])
      (initial ''job-1'')) = ''Done''"
  by (simp add: handler_defs)

text \<open>The branches of the classification, by band of the clamped progress.\<close>

lemma phase_phaseUpdate: "\<exists>z. phaseUpdate name cur tot prev = Some z \<and> phase z = name"
  by (simp add: phaseUpdate_def split: option.splits)

lemma classify_low:
  "js_lt p (Fin 20) \<Longrightarrow>
     map_option phase (classifyPhase env p ph prev) = (if subdivided (sampling ph) then Some ''sampling'' else None)"
  by (simp add: classifyPhase_def subdivided_def phase_phaseUpdate split: option.splits)

lemma classify_mid:
  assumes "js_ge p (Fin 20)" "js_lt p (Fin 95)"
  shows "(if total_at_most_1 env (search_trials ph) then classifyPhase env p ph prev = None
          else if subdivided (search_trials ph)
            then map_option phase (classifyPhase env p ph prev) = Some ''search_trials''
          else classifyPhase env p ph prev = prev)"
proof -
  have a: "\<not> js_lt p (Fin 20)" using assms(1) by (rule js_ge_not_lt)
  have b: "\<not> js_ge p (Fin 95)" using assms(2) js_ge_not_lt by blast
  show ?thesis using a b assms
    by (auto simp: classifyPhase_def subdivided_def total_at_most_1_def phase_phaseUpdate split: option.splits)
qed

lemma classify_high:
  assumes "js_ge p (Fin 95)"
  shows "(if numeric (saving ph) \<noteq> None
            then map_option phase (classifyPhase env p ph prev) = Some ''saving''
          else if subdivided (search_trials ph)
            then map_option phase (classifyPhase env p ph prev) = Some ''search_trials''
          else classifyPhase env p ph prev = prev)"
proof -
  have a: "\<not> js_lt p (Fin 20)" using assms js_lt_trans_fin[of p 20 95] js_ge_not_lt by force
  have b: "\<not> js_lt p (Fin 95)" using assms by (rule js_ge_not_lt)
  have c: "js_ge p (Fin 20)" using assms js_ge_trans_fin[of p 95 20] by simp
  show ?thesis using a b c assms
    by (auto simp: classifyPhase_def subdivided_def phase_phaseUpdate split: option.splits)
qed

lemma shown_total:
  "phaseShown s = Some name \<Longrightarrow>
     \<exists>pd. phaseDetail s = Some pd \<and> phase pd = name \<and> js_gt (pd_total pd) (Fin 1)"
  by (auto simp: phaseShown_def split: option.splits if_splits)

text \<open>
  C5 (amended). For a snapshot that passes the tolerance check and carries a phases
  object, the phase stored from the clamped progress is: below 20, "sampling" exactly
  when the sampling counter has numeric current and total with total > 1, else none;
  from 20 to below 95, none when a search counter is present with total <= 1,
  "search_trials" when it has numeric current and total with total > 1, and otherwise the
  previous phase detail is kept; from 95, "saving" when a saving counter with numeric
  current and total is present, whatever its total, else "search_trials" when the search
  counter has total > 1, and otherwise the previous phase detail is kept. The phase line
  is rendered only for a stored detail with total > 1, so a counter with total <= 1 is
  never displayed.
\<close>

theorem phase_classification_by_band:
  "(js_lt p (Fin 20) \<longrightarrow>
      map_option phase (classifyPhase env p ph prev) =
        (if subdivided (sampling ph) then Some ''sampling'' else None)) \<and>
   (js_ge p (Fin 20) \<and> js_lt p (Fin 95) \<longrightarrow>
      (if total_at_most_1 env (search_trials ph) then classifyPhase env p ph prev = None
       else if subdivided (search_trials ph)
         then map_option phase (classifyPhase env p ph prev) = Some ''search_trials''
       else classifyPhase env p ph prev = prev)) \<and>
   (js_ge p (Fin 95) \<longrightarrow>
      (if numeric (saving ph) \<noteq> None
         then map_option phase (classifyPhase env p ph prev) = Some ''saving''
       else if subdivided (search_trials ph)
         then map_option phase (classifyPhase env p ph prev) = Some ''search_trials''
       else classifyPhase env p ph prev = prev)) \<and>
   (phaseShown s = Some name \<longrightarrow>
      (\<exists>pd. phaseDetail s = Some pd \<and> phase pd = name \<and> js_gt (pd_total pd) (Fin 1)))"
  using classify_low[where p = p and env = env and ph = ph and prev = prev]
        classify_mid[where p = p and env = env and ph = ph and prev = prev]
        classify_high[where p = p and env = env and ph = ph and prev = prev]
        shown_total[where s = s and name = name]
  by blast

text \<open>The three examples of the specification, and a phase that is displayed.\<close>

theorem phase_classification_by_band_witness:
  "map_option phase (classifyPhase env0 (Fin 10)
      \<lparr>search_trials = None, sampling = counter 3 10, saving = None\<rparr> None) = Some ''sampling'' \<and>
   map_option phase (classifyPhase env0 (Fin 97)
      \<lparr>search_trials = None, sampling = None, saving = counter 2 5\<rparr> None) = Some ''saving'' \<and>
   classifyPhase env0 (Fin 50)
      \<lparr>search_trials = counter 0 1, sampling = None, saving = None\<rparr> None = None \<and>
   (\<exists>pd. phaseDetail (run env0 sampling_at_10 (initial ''job-1'')) = Some pd \<and>
         phase pd = ''sampling'' \<and> js_gt (pd_total pd) (Fin 1))"
proof -
  have a: "js_lt (Fin 10) (Fin 20)" by simp
  have b: "js_ge (Fin 50) (Fin 20) \<and> js_lt (Fin 50) (Fin 95)" by (simp add: js_ge_def)
  have c: "js_ge (Fin 97) (Fin 95)" by (simp add: js_ge_def)
  have d: "phaseShown (run env0 sampling_at_10 (initial ''job-1'')) = Some ''sampling''"
    by (simp add: handler_defs)
  from phase_classification_by_band
         [where p = "Fin 10" and env = env0 and prev = None and name = "''sampling''"
            and ph = "\<lparr>search_trials = None, sampling = counter 3 10, saving = None\<rparr>"
            and s = "run env0 sampling_at_10 (initial ''job-1'')"] a d
  have 1: "map_option phase (classifyPhase env0 (Fin 10)
      \<lparr>search_trials = None, sampling = counter 3 10, saving = None\<rparr> None) = Some ''sampling''"
    and 4: "\<exists>pd. phaseDetail (run env0 sampling_at_10 (initial ''job-1'')) = Some pd \<and>
         phase pd = ''sampling'' \<and> js_gt (pd_total pd) (Fin 1)"
    by (simp_all add: subdivided_def counter_def js_gt_def)
  from phase_classification_by_band
         [where p = "Fin 97" and env = env0 and prev = None and name = "''sampling''"
            and ph = "\<lparr>search_trials = None, sampling = None, saving = counter 2 5\<rparr>"
            and s = "run env0 sampling_at_10 (initial ''job-1'')"] c
  have 2: "map_option phase (classifyPhase env0 (Fin 97)
      \<lparr>search_trials = None, sampling = None, saving = counter 2 5\<rparr> None) = Some ''saving''"
    by (simp add: counter_def)
  from phase_classification_by_band
         [where p = "Fin 50" and env = env0 and prev = None and name = "''sampling''"
            and ph = "\<lparr>search_trials = counter 0 1, sampling = None, saving = None\<rparr>"
            and s = "run env0 sampling_at_10 (initial ''job-1'')"] b
  have 3: "classifyPhase env0 (Fin 50)
      \<lparr>search_trials = counter 0 1, sampling = None, saving = None\<rparr> None = None"
    by (simp add: total_at_most_1_def counter_def)
  from 1 2 3 4 show ?thesis by blast
qed

text \<open>
  C5, as stated, fails. At progress 97 with a search counter of 3 of 10 and no saving
  counter, the phase displayed is "search_trials", not none. At progress 50 with no search
  counter, after "sampling" was displayed at progress 10, "sampling" stays displayed.
\<close>

theorem search_phase_shown_at_97_and_sampling_kept_at_50:
  "phaseShown (run env0
      (polling @ [Status_Response 1 (Some (snapshot 97 ''Searching'' ''running''
         (Some \<lparr>search_trials = counter 3 10, sampling = None, saving = None\<rparr>)))])
      (initial ''job-1'')) = Some ''search_trials'' \<and>
   phaseShown (run env0
      (sampling_at_10 @ [Interval_Fires 1,
       Status_Response 2 (Some (snapshot 50 ''Searching'' ''running''
         (Some \<lparr>search_trials = None, sampling = None, saving = None\<rparr>)))])
      (initial ''job-1'')) = Some ''sampling''"
  by (simp add: handler_defs)

text \<open>
  C10. For a snapshot whose clamped progress is from 20 to below 95: when it has no
  phases object or its phases hold no search counter, the phase detail after the
  callback is the one before it; and when the callback clears a phase detail, the
  snapshot holds a search counter with total <= 1.
\<close>

theorem phase_detail_kept_without_search_counter:
  assumes "js_ge (clampProgress env data) (Fin 20)" "js_lt (clampProgress env data) (Fin 95)"
  shows "((case data_phases data of None \<Rightarrow> True | Some ph \<Rightarrow> search_trials ph = None) \<longrightarrow>
            phaseDetail (pollTick env jid data s) = phaseDetail s) \<and>
         (phaseDetail s \<noteq> None \<and> phaseDetail (pollTick env jid data s) = None \<longrightarrow>
            (\<exists>ph. data_phases data = Some ph \<and> total_at_most_1 env (search_trials ph)))"
proof (intro conjI impI)
  assume h: "case data_phases data of None \<Rightarrow> True | Some ph \<Rightarrow> search_trials ph = None"
  show "phaseDetail (pollTick env jid data s) = phaseDetail s"
  proof (cases "data_phases data")
    case None
    then show ?thesis by (simp add: phaseDetail_pollTick)
  next
    case (Some ph)
    with h have n: "search_trials ph = None" by simp
    from classify_mid[OF assms, where env = env and ph = ph and prev = "phaseDetail s"] n
    have "classifyPhase env (clampProgress env data) ph (phaseDetail s) = phaseDetail s"
      by (simp add: total_at_most_1_def subdivided_def)
    with Some show ?thesis by (simp add: phaseDetail_pollTick)
  qed
next
  assume h: "phaseDetail s \<noteq> None \<and> phaseDetail (pollTick env jid data s) = None"
  then obtain ph where ph: "data_phases data = Some ph"
    by (cases "data_phases data") (auto simp: phaseDetail_pollTick)
  with h have c: "classifyPhase env (clampProgress env data) ph (phaseDetail s) = None"
    by (auto simp: phaseDetail_pollTick split: if_splits)
  have "total_at_most_1 env (search_trials ph)"
  proof (rule ccontr)
    assume n: "\<not> total_at_most_1 env (search_trials ph)"
    from classify_mid[OF assms, where env = env and ph = ph and prev = "phaseDetail s"] n c h show False
      by (auto split: if_splits)
  qed
  with ph show "\<exists>ph. data_phases data = Some ph \<and> total_at_most_1 env (search_trials ph)" by simp
qed

theorem phase_detail_kept_without_search_counter_witness:
  "phaseDetail (pollTick env0 ''job-1''
      (snapshot 50 ''Searching'' ''running'' (Some \<lparr>search_trials = None, sampling = None, saving = None\<rparr>))
      (run env0 sampling_at_10 (initial ''job-1''))) =
     Some \<lparr>pd_current = Fin 3, pd_total = Fin 10, phase = ''sampling''\<rparr> \<and>
   phaseDetail (pollTick env0 ''job-1''
      (snapshot 50 ''Searching'' ''running'' (Some \<lparr>search_trials = counter 0 1, sampling = None, saving = None\<rparr>))
      (run env0 sampling_at_10 (initial ''job-1''))) = None \<and>
   total_at_most_1 env0 (counter 0 1)"
proof -
  let ?s = "run env0 sampling_at_10 (initial ''job-1'')"
  let ?d1 = "snapshot 50 ''Searching'' ''running'' (Some \<lparr>search_trials = None, sampling = None, saving = None\<rparr>)"
  let ?d2 = "snapshot 50 ''Searching'' ''running'' (Some \<lparr>search_trials = counter 0 1, sampling = None, saving = None\<rparr>)"
  have s: "phaseDetail ?s = Some \<lparr>pd_current = Fin 3, pd_total = Fin 10, phase = ''sampling''\<rparr>"
    by (simp add: handler_defs)
  have b1: "js_ge (clampProgress env0 ?d1) (Fin 20)" "js_lt (clampProgress env0 ?d1) (Fin 95)"
    by (simp_all add: handler_defs)
  have b2: "js_ge (clampProgress env0 ?d2) (Fin 20)" "js_lt (clampProgress env0 ?d2) (Fin 95)"
    by (simp_all add: handler_defs)
  have n: "phaseDetail (pollTick env0 ''job-1'' ?d2 ?s) = None"
    by (simp add: handler_defs)
  from phase_detail_kept_without_search_counter[OF b1, where jid = "''job-1''" and s = ?s] s
  have 1: "phaseDetail (pollTick env0 ''job-1'' ?d1 ?s) =
             Some \<lparr>pd_current = Fin 3, pd_total = Fin 10, phase = ''sampling''\<rparr>"
    by (simp add: snapshot_def)
  from phase_detail_kept_without_search_counter[OF b2, where jid = "''job-1''" and s = ?s] s n
  have 2: "total_at_most_1 env0 (counter 0 1)"
    by (simp add: snapshot_def)
  from 1 n 2 show ?thesis by blast
qed

section \<open>Properties of the transition system\<close>

text \<open>Every state the component reaches between two events is settled.\<close>

lemma list_all_clearInterval: "list_all P ts \<Longrightarrow> list_all P (clearInterval i ts)"
  by (simp add: clearInterval_def list_all_iff)

lemma clear_own: "list_all (\<lambda>t. Some i = Some (fst t)) ts \<Longrightarrow> clearInterval i ts = []"
  by (induction ts) (auto simp: clearInterval_def)

lemma no_timer: "list_all (\<lambda>t. False) ts \<Longrightarrow> ts = []"
  by (cases ts) auto

lemma timers_effectCleanup:
  "list_all (\<lambda>t. effectInterval s = Some (fst t)) (timers s) \<Longrightarrow> timers (effectCleanup s) = []"
  by (cases "effectInterval s") (auto simp: effectCleanup_def clear_own dest: no_timer)

lemma settled_pollingEffect:
  assumes "settled s" "effectInterval s1 = effectInterval s" "effectDeps s1 = effectDeps s"
      and "set (timers s1) \<subseteq> set (timers s)"
  shows "settled (pollingEffect s1)"
proof -
  from assms have all: "list_all (\<lambda>t. effectInterval s1 = Some (fst t)) (timers s1)"
    by (auto simp: settled_def list_all_iff)
  show ?thesis
  proof (cases "effectDeps s1 = (isMining s1, jobId s1)")
    case True
    with assms all show ?thesis by (auto simp: settled_def pollingEffect_def)
  next
    case False
    have t: "timers (effectCleanup s1) = []" using all by (rule timers_effectCleanup)
    have f: "isMining (effectCleanup s1) = isMining s1" "jobId (effectCleanup s1) = jobId s1"
      by (auto simp: effectCleanup_def split: option.splits)
    from False t f show ?thesis
      by (simp add: settled_def pollingEffect_def effectBody_def Let_def)
  qed
qed

lemma frame_pollResolved:
  "effectInterval (pollResolved env jid payload s) = effectInterval s"
  "effectDeps (pollResolved env jid payload s) = effectDeps s"
  "set (timers (pollResolved env jid payload s)) \<subseteq> set (timers s)"
  by (cases payload; auto simp: pollTick_def Let_def clearInterval_def split: option.splits)+

lemma frame_startMining:
  "effectInterval (startMining s) = effectInterval s"
  "effectDeps (startMining s) = effectDeps s"
  "set (timers (startMining s)) \<subseteq> set (timers s)"
  by (auto simp: startMining_def)

lemma frame_rejected:
  "effectInterval (startMining_rejected cp err s) = effectInterval s"
  "effectDeps (startMining_rejected cp err s) = effectDeps s"
  "set (timers (startMining_rejected cp err s)) \<subseteq> set (timers s)"
  by (auto simp: startMining_rejected_def startMining_finally_def Let_def clearInterval_def split: option.splits)

lemma frame_resolved:
  "effectInterval (startMining_resolved env cj cp resp s) = effectInterval s"
  "effectDeps (startMining_resolved env cj cp resp s) = effectDeps s"
  "set (timers (startMining_resolved env cj cp resp s)) \<subseteq> set (timers s)"
  by (cases resp; auto simp: startMining_resolved_def startMining_rejected_def startMining_finally_def Let_def clearInterval_def split: option.splits)+

lemma settled_initial: "settled (initial j)"
  by (simp add: settled_def initial_def)

lemma settled_step: "settled s \<Longrightarrow> settled (step env e s)"
proof (cases e)
  case (History_Loaded u sel h)
  assume s: "settled s"
  show ?thesis
  proof (cases "initData u sel h")
    case None
    with History_Loaded s show ?thesis by simp
  next
    case (Some j)
    have "settled (pollingEffect (s\<lparr>jobId := j\<rparr>))"
      by (rule settled_pollingEffect[OF s]) auto
    with History_Loaded Some show ?thesis by simp
  qed
next
  case History_Failed
  assume "settled s"
  with History_Failed show ?thesis by (simp add: settled_def)
next
  case (Edit_Params p)
  assume "settled s"
  with Edit_Params show ?thesis by (simp add: settled_def)
next
  case Click_Start
  assume s: "settled s"
  have "settled (pollingEffect (startMining s))"
    by (rule settled_pollingEffect[OF s]) (rule frame_startMining)+
  with Click_Start s show ?thesis by simp
next
  case (Interval_Fires i)
  assume "settled s"
  with Interval_Fires show ?thesis
    by (simp add: settled_def intervalFires_def split: option.splits)
next
  case (Status_Response r payload)
  assume s: "settled s"
  show ?thesis
  proof (cases "map_of (pendingStatus s) r")
    case None
    with Status_Response s show ?thesis by simp
  next
    case (Some a)
    obtain i jid where a: "a = (i, jid)" by (cases a)
    let ?s0 = "s\<lparr>pendingStatus := dropPending r (pendingStatus s)\<rparr>"
    have s0: "settled ?s0" using s by (simp add: settled_def)
    have "settled (pollingEffect (pollResolved env jid payload ?s0))"
      by (rule settled_pollingEffect[OF s0]) (rule frame_pollResolved)+
    with Status_Response Some a show ?thesis by simp
  qed
next
  case (Status_Failure r)
  assume "settled s"
  with Status_Failure show ?thesis
    by (simp add: settled_def pollFailed_def split: option.splits)
next
  case (Mine_Response r resp)
  assume s: "settled s"
  show ?thesis
  proof (cases "map_of (pendingMine s) r")
    case None
    with Mine_Response s show ?thesis by simp
  next
    case (Some a)
    obtain cj cp where a: "a = (cj, cp)" by (cases a)
    let ?s0 = "s\<lparr>pendingMine := dropPending r (pendingMine s)\<rparr>"
    have s0: "settled ?s0" using s by (simp add: settled_def)
    have "settled (pollingEffect (startMining_resolved env cj cp resp ?s0))"
      by (rule settled_pollingEffect[OF s0]) (rule frame_resolved)+
    with Mine_Response Some a show ?thesis by simp
  qed
next
  case (Mine_Failure r err)
  assume s: "settled s"
  show ?thesis
  proof (cases "map_of (pendingMine s) r")
    case None
    with Mine_Failure s show ?thesis by simp
  next
    case (Some a)
    obtain cj cp where a: "a = (cj, cp)" by (cases a)
    let ?s0 = "s\<lparr>pendingMine := dropPending r (pendingMine s)\<rparr>"
    have s0: "settled ?s0" using s by (simp add: settled_def)
    have "settled (pollingEffect (startMining_rejected cp err ?s0))"
      by (rule settled_pollingEffect[OF s0]) (rule frame_rejected)+
    with Mine_Failure Some a show ?thesis by simp
  qed
qed

lemma settled_run: "settled s \<Longrightarrow> settled (run env es s)"
  by (induction es arbitrary: s) (auto intro: settled_step)

lemma settled_reachable: "settled (run env es (initial j))"
  by (rule settled_run) (rule settled_initial)

lemma settled_not_mining: "settled s \<Longrightarrow> \<not> isMining s \<Longrightarrow> timers s = []"
  by (auto simp: settled_def dest: no_timer)

text \<open>What the polling effect leaves as it is.\<close>

lemma pollingEffect_frame:
  "toasts (pollingEffect s) = toasts s"
  "miningResult (pollingEffect s) = miningResult s"
  "completedShownRef (pollingEffect s) = completedShownRef s"
  "pendingMine (pollingEffect s) = pendingMine s"
  "pendingStatus (pollingEffect s) = pendingStatus s"
  "requests (pollingEffect s) = requests s"
  "console (pollingEffect s) = console s"
  "isMining (pollingEffect s) = isMining s"
  "jobId (pollingEffect s) = jobId s"
  by (auto simp: pollingEffect_def effectBody_def effectCleanup_def Let_def split: option.splits)

lemma pollingEffect_synced: "effectDeps s = (isMining s, jobId s) \<Longrightarrow> pollingEffect s = s"
  by (simp add: pollingEffect_def)

lemma pollingEffect_idle:
  assumes "\<not> isMining s"
  shows "miningProgress (pollingEffect s) = miningProgress s"
    and "miningStatus (pollingEffect s) = miningStatus s"
    and "phaseDetail (pollingEffect s) = phaseDetail s"
    and "maxProgressSeenRef (pollingEffect s) = maxProgressSeenRef s"
  using assms
  by (auto simp: pollingEffect_def effectBody_def effectCleanup_def Let_def split: option.splits)

lemma timers_pollingEffect_idle:
  assumes "\<not> isMining s" "list_all (\<lambda>t. effectInterval s = Some (fst t)) (timers s)"
      and "effectDeps s = (isMining s, jobId s) \<Longrightarrow> timers s = []"
  shows "timers (pollingEffect s) = []"
proof (cases "effectDeps s = (isMining s, jobId s)")
  case True
  with assms(3) show ?thesis by (simp add: pollingEffect_def)
next
  case False
  have "timers (effectCleanup s) = []" using assms(2) by (rule timers_effectCleanup)
  moreover have "\<not> isMining (effectCleanup s)" using assms(1)
    by (simp add: effectCleanup_def split: option.splits)
  ultimately show ?thesis using False by (simp add: pollingEffect_def effectBody_def)
qed

text \<open>
  In a settled state the display cells after a status response are those after the poll
  callback: the effect that follows leaves them as they are.
\<close>

lemma status_response_display:
  assumes "settled s" "map_of (pendingStatus s) r = Some (i, jid)"
  shows "miningProgress (step env (Status_Response r (Some data)) s) = miningProgress (pollTick env jid data s)"
    and "miningStatus (step env (Status_Response r (Some data)) s) = miningStatus (pollTick env jid data s)"
    and "phaseDetail (step env (Status_Response r (Some data)) s) = phaseDetail (pollTick env jid data s)"
proof -
  let ?s0 = "s\<lparr>pendingStatus := dropPending r (pendingStatus s)\<rparr>"
  let ?t = "pollTick env jid data ?s0"
  have st: "step env (Status_Response r (Some data)) s = pollingEffect ?t"
    using assms(2) by simp
  have deps: "effectDeps s = (isMining s, jobId s)" using assms(1) by (simp add: settled_def)
  have same: "miningProgress ?t = miningProgress (pollTick env jid data s)"
             "miningStatus ?t = miningStatus (pollTick env jid data s)"
             "phaseDetail ?t = phaseDetail (pollTick env jid data s)"
    by (auto simp: pollTick_def Let_def split: option.splits)
  have eff: "miningProgress (pollingEffect ?t) = miningProgress ?t \<and>
             miningStatus (pollingEffect ?t) = miningStatus ?t \<and>
             phaseDetail (pollingEffect ?t) = phaseDetail ?t"
  proof (cases "completed env data \<and> pollIntervalRef ?s0 \<noteq> None")
    case True
    then obtain k where "completed env data" "pollIntervalRef ?s0 = Some k" by auto
    from pollTick_final(1)[OF this] have "\<not> isMining ?t" by simp
    then show ?thesis by (simp add: pollingEffect_idle)
  next
    case False
    note f = pollTick_running[OF False, of jid]
    have "pollingEffect ?t = ?t"
      by (rule pollingEffect_synced) (use f(1,2,3) deps in simp)
    then show ?thesis by simp
  qed
  show "miningProgress (step env (Status_Response r (Some data)) s) = miningProgress (pollTick env jid data s)"
    and "miningStatus (step env (Status_Response r (Some data)) s) = miningStatus (pollTick env jid data s)"
    and "phaseDetail (step env (Status_Response r (Some data)) s) = phaseDetail (pollTick env jid data s)"
    unfolding st using eff same by simp_all
qed

lemma map_of_dropPending: "map_of (dropPending r ps) q = (if q = r then None else map_of ps q)"
  by (induction ps) (auto simp: dropPending_def)

lemma pollResolved_keeps:
  "pendingMine (pollResolved env jid payload s) = pendingMine s"
  "completedShownRef s \<Longrightarrow> completedShownRef (pollResolved env jid payload s)"
  by (cases payload; auto simp: pollTick_def Let_def split: option.splits)+

lemma resolved_keeps:
  "pendingMine (startMining_resolved env cj cp resp s) = pendingMine s"
  "completedShownRef (startMining_resolved env cj cp resp s) = completedShownRef s"
  by (cases resp; auto simp: startMining_resolved_def startMining_rejected_def startMining_finally_def Let_def split: option.splits)+

lemma rejected_keeps:
  "pendingMine (startMining_rejected cp err s) = pendingMine s"
  "completedShownRef (startMining_rejected cp err s) = completedShownRef s"
  "miningResult (startMining_rejected cp err s) = miningResult s"
  "isMining (startMining_rejected cp err s) = False"
  "toasts (startMining_rejected cp err s) = toasts s @
     [Toast_error ''Mining failed''
        (Some (if truthy (err_detail err) then the (err_detail err)
               else if truthy (err_message err) then the (err_message err)
               else ''Unknown error occurred''))]"
  by (auto simp: startMining_rejected_def startMining_finally_def Let_def split: option.splits)

text \<open>
  Until the next click on the start button, \<^verbatim>\<open>completedShownRef\<close> stays set and a start
  request in flight stays in flight.
\<close>

lemma step_keeps_call:
  assumes "leaves_call q e" "completedShownRef s"
  shows "completedShownRef (step env e s) \<and> map_of (pendingMine (step env e s)) q = map_of (pendingMine s) q"
proof (cases e)
  case (History_Loaded u sel h)
  with assms show ?thesis by (simp add: pollingEffect_frame split: option.splits)
next
  case History_Failed
  with assms show ?thesis by simp
next
  case (Edit_Params p)
  with assms show ?thesis by simp
next
  case Click_Start
  with assms show ?thesis by simp
next
  case (Interval_Fires i)
  with assms show ?thesis by (simp add: intervalFires_def split: option.splits)
next
  case (Status_Response r payload)
  with assms show ?thesis
    by (simp add: pollingEffect_frame pollResolved_keeps split: option.splits)
next
  case (Status_Failure r)
  with assms show ?thesis by (simp add: pollFailed_def split: option.splits)
next
  case (Mine_Response r resp)
  with assms show ?thesis
    by (simp add: pollingEffect_frame resolved_keeps map_of_dropPending split: option.splits)
next
  case (Mine_Failure r err)
  with assms show ?thesis
    by (simp add: pollingEffect_frame rejected_keeps map_of_dropPending split: option.splits)
qed

lemma run_keeps_call:
  "list_all (leaves_call q) es \<Longrightarrow> completedShownRef s \<Longrightarrow>
     completedShownRef (run env es s) \<and> map_of (pendingMine (run env es s)) q = map_of (pendingMine s) q"
proof (induction es arbitrary: s)
  case Nil
  then show ?case by simp
next
  case (Cons e es)
  from Cons.prems have e: "leaves_call q e" and es: "list_all (leaves_call q) es" by auto
  from step_keeps_call[OF e Cons.prems(2), of env]
  have 1: "completedShownRef (step env e s)"
    and 2: "map_of (pendingMine (step env e s)) q = map_of (pendingMine s) q" by auto
  from Cons.IH[OF es 1] 2 show ?case by simp
qed

text \<open>
  A status response in a settled state, whichever interval sent the request: when it
  reports completion while a poller is registered it ends the run, and otherwise it is
  the poll callback on the state; the console is left as it is.
\<close>

lemma status_response_effect:
  assumes "settled s" "map_of (pendingStatus s) r = Some (i, jid)"
  shows "completed env data \<and> pollIntervalRef s \<noteq> None \<Longrightarrow>
           isMining (step env (Status_Response r (Some data)) s) = False \<and>
           timers (step env (Status_Response r (Some data)) s) = [] \<and>
           miningProgress (step env (Status_Response r (Some data)) s) = Fin 100 \<and>
           miningResult (step env (Status_Response r (Some data)) s) =
             Some \<lparr>downloadUrl = baseURL env @ ''/api/download-result?job_id='' @ jid, patternsCount = None\<rparr> \<and>
           toasts (step env (Status_Response r (Some data)) s) =
             toasts s @ [Toast_success ''Mining completed successfully!'']"
    and "\<not> (completed env data \<and> pollIntervalRef s \<noteq> None) \<Longrightarrow>
           step env (Status_Response r (Some data)) s =
             pollTick env jid data (s\<lparr>pendingStatus := dropPending r (pendingStatus s)\<rparr>)"
    and "console (step env (Status_Response r (Some data)) s) = console s"
proof -
  let ?s0 = "s\<lparr>pendingStatus := dropPending r (pendingStatus s)\<rparr>"
  let ?t = "pollTick env jid data ?s0"
  have st: "step env (Status_Response r (Some data)) s = pollingEffect ?t"
    using assms(2) by simp
  have all: "list_all (\<lambda>t. effectInterval s = Some (fst t)) (timers s)"
    and deps: "effectDeps s = (isMining s, jobId s)"
    using assms(1) by (auto simp: settled_def)
  have "console ?t = console s" by (simp add: pollTick_def Let_def split: option.splits)
  then show "console (step env (Status_Response r (Some data)) s) = console s"
    unfolding st by (simp add: pollingEffect_frame)
  {
    assume "completed env data \<and> pollIntervalRef s \<noteq> None"
    then obtain k where k: "pollIntervalRef ?s0 = Some k" and c: "completed env data" by auto
    note f = pollTick_final[OF c k, of jid]
    have all': "list_all (\<lambda>t. effectInterval ?t = Some (fst t)) (timers ?t)"
      using all f(4,8) by (simp add: list_all_clearInterval)
    have "timers (pollingEffect ?t) = []"
    proof (rule timers_pollingEffect_idle)
      show "\<not> isMining ?t" using f(1) by simp
      show "list_all (\<lambda>t. effectInterval ?t = Some (fst t)) (timers ?t)" by (rule all')
      assume "effectDeps ?t = (isMining ?t, jobId ?t)"
      with f(1,2,3) deps have "\<not> isMining s" by simp
      with assms(1) have "timers s = []" by (simp add: settled_not_mining)
      with f(8) show "timers ?t = []" by (simp add: clearInterval_def)
    qed
    moreover have "\<not> isMining ?t" using f(1) by simp
    ultimately show "isMining (step env (Status_Response r (Some data)) s) = False \<and>
           timers (step env (Status_Response r (Some data)) s) = [] \<and>
           miningProgress (step env (Status_Response r (Some data)) s) = Fin 100 \<and>
           miningResult (step env (Status_Response r (Some data)) s) =
             Some \<lparr>downloadUrl = baseURL env @ ''/api/download-result?job_id='' @ jid, patternsCount = None\<rparr> \<and>
           toasts (step env (Status_Response r (Some data)) s) =
             toasts s @ [Toast_success ''Mining completed successfully!'']"
      unfolding st using f(1,5,6,7) by (simp add: pollingEffect_frame pollingEffect_idle)
  }
  {
    assume "\<not> (completed env data \<and> pollIntervalRef s \<noteq> None)"
    then have n: "\<not> (completed env data \<and> pollIntervalRef ?s0 \<noteq> None)" by simp
    note f = pollTick_running[OF n, of jid]
    have "pollingEffect ?t = ?t"
      by (rule pollingEffect_synced) (use f(1,2,3) deps in simp)
    then show "step env (Status_Response r (Some data)) s = ?t" unfolding st .
  }
qed

lemma completed_from_100:
  "Number env (data_progress data) = Fin x \<Longrightarrow> 100 \<le> x \<Longrightarrow> completed env data"
  by (simp add: completed_def clampProgress_def Math_max_def Math_min_def js_ge_def)

text \<open>
  C8 (amended). In a settled state, a status request that fails is recovered locally:
  the failure is written to the console and nothing else changes, so the interval keeps
  running and no toast is shown; a falsy payload is passed over without a log line. A
  payload whose progress \<^verbatim>\<open>Number\<close> reads as a number, in range or not, is neither
  logged nor passed over: its progress is clamped to 0 to 100 (100 for a progress of
  100 or more); when it reports completion, by its status or by a clamped progress of
  100, while a poller is registered, it ends the run, clears the interval, produces the
  result and shows the completion toast; otherwise the displayed progress becomes the
  maximum of the previous one and the clamped progress, and the run, the interval and
  the toasts stay as they are. When the start request is rejected, the run ends
  (\<^verbatim>\<open>isMining\<close> is false and no interval is left running), an error toast is shown whose
  description is the response's detail, else the error's message, else "Unknown error
  occurred", and the mining result is left as it was: it stays absent when it was
  absent, and stays in place when a poll tick had finalized the run before.
\<close>

theorem poll_failure_local_start_failure_surfaced:
  assumes "settled s"
  shows "(map_of (pendingStatus s) r \<noteq> None \<longrightarrow>
            step env (Status_Failure r) s =
              s\<lparr>pendingStatus := dropPending r (pendingStatus s),
                console := console s @ [''Failed to poll progress'']\<rparr> \<and>
            step env (Status_Response r None) s = s\<lparr>pendingStatus := dropPending r (pendingStatus s)\<rparr>) \<and>
         (map_of (pendingStatus s) r \<noteq> None \<and> Number env (data_progress data) \<noteq> NaN \<longrightarrow>
            (let s' = step env (Status_Response r (Some data)) s in
             console s' = console s \<and>
             (\<exists>c. clampProgress env data = Fin c \<and> 0 \<le> c \<and> c \<le> 100) \<and>
             (\<forall>x. Number env (data_progress data) = Fin x \<and> 100 \<le> x \<longrightarrow>
                  clampProgress env data = Fin 100 \<and> completed env data) \<and>
             (if completed env data \<and> pollIntervalRef s \<noteq> None
              then isMining s' = False \<and> timers s' = [] \<and> miningProgress s' = Fin 100 \<and>
                   miningResult s' \<noteq> None \<and>
                   toasts s' = toasts s @ [Toast_success ''Mining completed successfully!'']
              else miningProgress s' = Math_max (miningProgress s) (clampProgress env data) \<and>
                   isMining s' = isMining s \<and> timers s' = timers s \<and> toasts s' = toasts s \<and>
                   miningResult s' = miningResult s))) \<and>
         (map_of (pendingMine s) q \<noteq> None \<longrightarrow>
            (let s' = step env (Mine_Failure q error) s in
             isMining s' = False \<and> timers s' = [] \<and> miningResult s' = miningResult s \<and>
             toasts s' = toasts s @
               [Toast_error ''Mining failed''
                  (Some (if truthy (err_detail error) then the (err_detail error)
                         else if truthy (err_message error) then the (err_message error)
                         else ''Unknown error occurred''))]))"
proof (intro conjI impI)
  assume "map_of (pendingStatus s) r \<noteq> None"
  then obtain i jid where p: "map_of (pendingStatus s) r = Some (i, jid)" by auto
  then show "step env (Status_Failure r) s =
              s\<lparr>pendingStatus := dropPending r (pendingStatus s),
                console := console s @ [''Failed to poll progress'']\<rparr>"
    by (simp add: pollFailed_def)
  have "effectDeps s = (isMining s, jobId s)" using assms by (simp add: settled_def)
  then have "pollingEffect (s\<lparr>pendingStatus := dropPending r (pendingStatus s)\<rparr>) =
             s\<lparr>pendingStatus := dropPending r (pendingStatus s)\<rparr>"
    by (simp add: pollingEffect_synced)
  with p show "step env (Status_Response r None) s = s\<lparr>pendingStatus := dropPending r (pendingStatus s)\<rparr>"
    by simp
next
  assume h: "map_of (pendingStatus s) r \<noteq> None \<and> Number env (data_progress data) \<noteq> NaN"
  then obtain i jid where p: "map_of (pendingStatus s) r = Some (i, jid)" by auto
  let ?s' = "step env (Status_Response r (Some data)) s"
  let ?s0 = "s\<lparr>pendingStatus := dropPending r (pendingStatus s)\<rparr>"
  note e = status_response_effect[OF assms p, where env = env and data = data]
  have a: "console ?s' = console s" by (rule e(3))
  have b: "\<exists>c. clampProgress env data = Fin c \<and> 0 \<le> c \<and> c \<le> 100"
    using h by (simp add: clampProgress_range)
  have c: "\<forall>x. Number env (data_progress data) = Fin x \<and> 100 \<le> x \<longrightarrow>
                  clampProgress env data = Fin 100 \<and> completed env data"
    by (auto simp: completed_from_100 clampProgress_def Math_max_def Math_min_def)
  have d: "if completed env data \<and> pollIntervalRef s \<noteq> None
              then isMining ?s' = False \<and> timers ?s' = [] \<and> miningProgress ?s' = Fin 100 \<and>
                   miningResult ?s' \<noteq> None \<and>
                   toasts ?s' = toasts s @ [Toast_success ''Mining completed successfully!'']
              else miningProgress ?s' = Math_max (miningProgress s) (clampProgress env data) \<and>
                   isMining ?s' = isMining s \<and> timers ?s' = timers s \<and> toasts ?s' = toasts s \<and>
                   miningResult ?s' = miningResult s"
  proof (cases "completed env data \<and> pollIntervalRef s \<noteq> None")
    case True
    from e(1)[OF True] True show ?thesis by (simp del: step.simps)
  next
    case False
    then have n: "\<not> (completed env data \<and> pollIntervalRef ?s0 \<noteq> None)" by simp
    note f = pollTick_running[OF n, of jid]
    from e(2)[OF False] f(1,4,6,7,8) False show ?thesis by (simp del: step.simps)
  qed
  from a b c d show "let s' = step env (Status_Response r (Some data)) s in
             console s' = console s \<and>
             (\<exists>c. clampProgress env data = Fin c \<and> 0 \<le> c \<and> c \<le> 100) \<and>
             (\<forall>x. Number env (data_progress data) = Fin x \<and> 100 \<le> x \<longrightarrow>
                  clampProgress env data = Fin 100 \<and> completed env data) \<and>
             (if completed env data \<and> pollIntervalRef s \<noteq> None
              then isMining s' = False \<and> timers s' = [] \<and> miningProgress s' = Fin 100 \<and>
                   miningResult s' \<noteq> None \<and>
                   toasts s' = toasts s @ [Toast_success ''Mining completed successfully!'']
              else miningProgress s' = Math_max (miningProgress s) (clampProgress env data) \<and>
                   isMining s' = isMining s \<and> timers s' = timers s \<and> toasts s' = toasts s \<and>
                   miningResult s' = miningResult s)"
    unfolding Let_def by blast
next
  assume "map_of (pendingMine s) q \<noteq> None"
  then obtain cj cp where p: "map_of (pendingMine s) q = Some (cj, cp)" by auto
  let ?s0 = "s\<lparr>pendingMine := dropPending q (pendingMine s)\<rparr>"
  let ?t = "startMining_rejected cp error ?s0"
  have st: "step env (Mine_Failure q error) s = pollingEffect ?t" using p by simp
  have s0: "settled ?s0" using assms by (simp add: settled_def)
  have "settled (pollingEffect ?t)"
    by (rule settled_pollingEffect[OF s0]) (rule frame_rejected)+
  moreover have "\<not> isMining (pollingEffect ?t)" by (simp add: pollingEffect_frame rejected_keeps)
  ultimately have "timers (pollingEffect ?t) = []" by (rule settled_not_mining)
  then show "let s' = step env (Mine_Failure q error) s in
             isMining s' = False \<and> timers s' = [] \<and> miningResult s' = miningResult s \<and>
             toasts s' = toasts s @
               [Toast_error ''Mining failed''
                  (Some (if truthy (err_detail error) then the (err_detail error)
                         else if truthy (err_message error) then the (err_message error)
                         else ''Unknown error occurred''))]"
    unfolding Let_def st by (simp add: pollingEffect_frame rejected_keeps)
qed

text \<open>
  A failed status request, a payload with progress 40 and a rejected start request, each
  arriving while the first status request and the start request are in flight.
\<close>

theorem poll_failure_local_start_failure_surfaced_witness:
  "timers (step env0 (Status_Failure 1) (run env0 polling (initial ''job-1''))) = [(1, ''job-1'')] \<and>
   toasts (step env0 (Status_Failure 1) (run env0 polling (initial ''job-1''))) = [] \<and>
   console (step env0 (Status_Failure 1) (run env0 polling (initial ''job-1''))) = [''Failed to poll progress''] \<and>
   miningProgress (step env0 (Status_Response 1 (Some (snapshot 40 ''Searching'' ''running'' None)))
      (run env0 polling (initial ''job-1''))) = Fin 40 \<and>
   timers (step env0 (Status_Response 1 (Some (snapshot 40 ''Searching'' ''running'' None)))
      (run env0 polling (initial ''job-1''))) = [(1, ''job-1'')] \<and>
   console (step env0 (Status_Response 1 (Some (snapshot 40 ''Searching'' ''running'' None)))
      (run env0 polling (initial ''job-1''))) = [] \<and>
   isMining (step env0 (Mine_Failure 0 network_error) (run env0 polling (initial ''job-1''))) = False \<and>
   timers (step env0 (Mine_Failure 0 network_error) (run env0 polling (initial ''job-1''))) = [] \<and>
   miningResult (step env0 (Mine_Failure 0 network_error) (run env0 polling (initial ''job-1''))) = None \<and>
   toasts (step env0 (Mine_Failure 0 network_error) (run env0 polling (initial ''job-1''))) =
     [Toast_error ''Mining failed'' (Some ''Network Error'')]"
proof -
  let ?s = "run env0 polling (initial ''job-1'')"
  let ?d = "snapshot 40 ''Searching'' ''running'' None"
  have s: "settled ?s" by (rule settled_reachable)
  have p: "map_of (pendingStatus ?s) 1 \<noteq> None" "map_of (pendingMine ?s) 0 \<noteq> None"
    by (simp_all add: handler_defs)
  have v: "timers ?s = [(1, ''job-1'')]" "toasts ?s = []" "console ?s = []" "miningResult ?s = None"
          "miningProgress ?s = Fin 0"
    by (simp_all add: handler_defs)
  have n: "Number env0 (data_progress ?d) \<noteq> NaN" "\<not> completed env0 ?d" "clampProgress env0 ?d = Fin 40"
    by (simp_all add: handler_defs)
  have nc: "\<not> (completed env0 ?d \<and> pollIntervalRef ?s \<noteq> None)" using n(2) by simp
  note th = poll_failure_local_start_failure_surfaced
              [OF s, where env = env0 and r = 1 and q = 0 and error = network_error and data = ?d,
               unfolded Let_def if_not_P[OF nc]]
  from th p have 1: "step env0 (Status_Failure 1) ?s =
             ?s\<lparr>pendingStatus := dropPending 1 (pendingStatus ?s),
                console := console ?s @ [''Failed to poll progress'']\<rparr>"
    by blast
  from th p n(1) have 2: "console (step env0 (Status_Response 1 (Some ?d)) ?s) = console ?s"
    and 3: "miningProgress (step env0 (Status_Response 1 (Some ?d)) ?s) =
            Math_max (miningProgress ?s) (clampProgress env0 ?d)"
    and 4: "timers (step env0 (Status_Response 1 (Some ?d)) ?s) = timers ?s"
    by blast+
  from th p have 5: "isMining (step env0 (Mine_Failure 0 network_error) ?s) = False"
    and 6: "timers (step env0 (Mine_Failure 0 network_error) ?s) = []"
    and 7: "miningResult (step env0 (Mine_Failure 0 network_error) ?s) = miningResult ?s"
    and 8: "toasts (step env0 (Mine_Failure 0 network_error) ?s) =
              toasts ?s @
               [Toast_error ''Mining failed''
                  (Some (if truthy (err_detail network_error) then the (err_detail network_error)
                         else if truthy (err_message network_error) then the (err_message network_error)
                         else ''Unknown error occurred''))]"
    by blast+
  from 1 v have a: "timers (step env0 (Status_Failure 1) ?s) = [(1, ''job-1'')]"
      "toasts (step env0 (Status_Failure 1) ?s) = []"
      "console (step env0 (Status_Failure 1) ?s) = [''Failed to poll progress'']"
    by (simp_all del: step.simps)
  from 2 3 4 v n(3) have b: "console (step env0 (Status_Response 1 (Some ?d)) ?s) = []"
      "miningProgress (step env0 (Status_Response 1 (Some ?d)) ?s) = Fin 40"
      "timers (step env0 (Status_Response 1 (Some ?d)) ?s) = [(1, ''job-1'')]"
    by (simp_all add: Math_max_def del: step.simps)
  from 7 8 v have c: "miningResult (step env0 (Mine_Failure 0 network_error) ?s) = None"
      "toasts (step env0 (Mine_Failure 0 network_error) ?s) =
         [Toast_error ''Mining failed'' (Some ''Network Error'')]"
    by (simp_all add: network_error_def del: step.simps)
  from a b c 5 6 show ?thesis by blast
qed

text \<open>
  C8, as stated, fails. A payload with an out-of-range progress of 250 and no status is
  neither logged nor passed over: it is clamped to 100 and ends the run, the interval
  is cleared and the completion toast is shown. And when the start request is rejected
  after a poll tick has finalized the run, the error toast is shown while the mining
  result of the poll tick stays in place.
\<close>

theorem out_of_range_payload_finalizes_run:
  "isMining (run env0
      (polling @ [Status_Response 1
         (Some \<lparr>data_progress = JNumber (Fin 250), data_message = None, data_status = None, data_phases = None\<rparr>)])
      (initial ''job-1'')) = False \<and>
   timers (run env0
      (polling @ [Status_Response 1
         (Some \<lparr>data_progress = JNumber (Fin 250), data_message = None, data_status = None, data_phases = None\<rparr>)])
      (initial ''job-1'')) = [] \<and>
   console (run env0
      (polling @ [Status_Response 1
         (Some \<lparr>data_progress = JNumber (Fin 250), data_message = None, data_status = None, data_phases = None\<rparr>)])
      (initial ''job-1'')) = [] \<and>
   toasts (run env0
      (polling @ [Status_Response 1
         (Some \<lparr>data_progress = JNumber (Fin 250), data_message = None, data_status = None, data_phases = None\<rparr>)])
      (initial ''job-1'')) = [Toast_success ''Mining completed successfully!''] \<and>
   miningResult (run env0
      (polling @ [Status_Response 1 (Some (snapshot 100 ''Done'' ''completed'' None)),
                  Mine_Failure 0 network_error])
      (initial ''job-1'')) =
     Some \<lparr>downloadUrl = ''http://host/api/download-result?job_id=job-1'', patternsCount = None\<rparr> \<and>
   toasts (run env0
      (polling @ [Status_Response 1 (Some (snapshot 100 ''Done'' ''completed'' None)),
                  Mine_Failure 0 network_error])
      (initial ''job-1'')) =
     [Toast_success ''Mining completed successfully!'',
      Toast_error ''Mining failed'' (Some ''Network Error'')]"
  by (simp add: handler_defs)

text \<open>
  C3 (amended). The component keeps no run epoch. In a settled state, an interval that
  is not the one of the mounted effect has been cleared and sends no further status
  request; but the response to a status request that such an interval sent earlier is
  applied to the current state like any other: when it reports completion while a poller
  is registered it finalizes the current run, with the job id of the request in the
  download address, and otherwise it is the poll callback on the current state, which
  raises the displayed progress and the maximum seen to the clamped progress.
\<close>

theorem stale_response_applied:
  assumes "settled s" "map_of (pendingStatus s) r = Some (i, jid)" "effectInterval s \<noteq> Some i"
  shows "step env (Interval_Fires i) s = s \<and>
         (let s' = step env (Status_Response r (Some data)) s in
          if completed env data \<and> pollIntervalRef s \<noteq> None
          then isMining s' = False \<and> timers s' = [] \<and> miningProgress s' = Fin 100 \<and>
               miningResult s' =
                 Some \<lparr>downloadUrl = baseURL env @ ''/api/download-result?job_id='' @ jid, patternsCount = None\<rparr>
          else s' = pollTick env jid data (s\<lparr>pendingStatus := dropPending r (pendingStatus s)\<rparr>) \<and>
               miningProgress s' = Math_max (miningProgress s) (clampProgress env data) \<and>
               maxProgressSeenRef s' = Math_max (maxProgressSeenRef s) (clampProgress env data))"
proof -
  let ?s0 = "s\<lparr>pendingStatus := dropPending r (pendingStatus s)\<rparr>"
  let ?t = "pollTick env jid data ?s0"
  have st: "step env (Status_Response r (Some data)) s = pollingEffect ?t"
    using assms(2) by simp
  have all: "list_all (\<lambda>t. effectInterval s = Some (fst t)) (timers s)"
    and deps: "effectDeps s = (isMining s, jobId s)"
    using assms(1) by (auto simp: settled_def)
  have "map_of (timers s) i = None"
  proof (cases "map_of (timers s) i")
    case (Some j)
    then have "(i, j) \<in> set (timers s)" by (rule map_of_SomeD)
    with all have "effectInterval s = Some i" by (auto simp: list_all_iff)
    with assms(3) show ?thesis by simp
  qed simp
  then have fires: "step env (Interval_Fires i) s = s" by (simp add: intervalFires_def)
  show ?thesis
  proof (cases "completed env data \<and> pollIntervalRef s \<noteq> None")
    case True
    then obtain k where k: "pollIntervalRef ?s0 = Some k" and c: "completed env data" by auto
    note f = pollTick_final[OF c k, of jid]
    have all': "list_all (\<lambda>t. effectInterval ?t = Some (fst t)) (timers ?t)"
      using all f(4,8) by (simp add: list_all_clearInterval)
    have "timers (pollingEffect ?t) = []"
    proof (rule timers_pollingEffect_idle)
      show "\<not> isMining ?t" using f(1) by simp
      show "list_all (\<lambda>t. effectInterval ?t = Some (fst t)) (timers ?t)" by (rule all')
      assume "effectDeps ?t = (isMining ?t, jobId ?t)"
      with f(1,2,3) deps have "\<not> isMining s" by simp
      with assms(1) have "timers s = []" by (simp add: settled_not_mining)
      with f(8) show "timers ?t = []" by (simp add: clearInterval_def)
    qed
    moreover have "\<not> isMining ?t" using f(1) by simp
    ultimately show ?thesis using True fires st f(1,5,6)
      by (simp add: Let_def pollingEffect_frame pollingEffect_idle)
  next
    case False
    then have n: "\<not> (completed env data \<and> pollIntervalRef ?s0 \<noteq> None)" by simp
    note f = pollTick_running[OF n, of jid]
    have "pollingEffect ?t = ?t"
      by (rule pollingEffect_synced) (use f(1,2,3) deps in simp)
    with False fires st f(4,5) show ?thesis by (auto simp: Let_def)
  qed
qed

text \<open>
  The second run has just started and shows progress 0; the response to the first run's
  status request arrives with progress 70 and the second run shows 70.
\<close>

theorem stale_response_applied_witness:
  "miningProgress (run env0 second_run (initial ''job-1'')) = Fin 0 \<and>
   step env0 (Interval_Fires 1) (run env0 second_run (initial ''job-1'')) =
     run env0 second_run (initial ''job-1'') \<and>
   miningProgress (step env0 (Status_Response 1 (Some (snapshot 70 ''Run 1 at 70'' ''running'' None)))
     (run env0 second_run (initial ''job-1''))) = Fin 70"
proof -
  let ?s = "run env0 second_run (initial ''job-1'')"
  let ?d = "snapshot 70 ''Run 1 at 70'' ''running'' None"
  have s: "settled ?s" by (rule settled_reachable)
  have p: "map_of (pendingStatus ?s) 1 = Some (1, ''job-1'')"
    and e: "effectInterval ?s \<noteq> Some 1"
    and v: "miningProgress ?s = Fin 0"
    by (simp_all add: handler_defs)
  have c: "\<not> completed env0 ?d" "clampProgress env0 ?d = Fin 70"
    by (simp_all add: handler_defs)
  have nc: "\<not> (completed env0 ?d \<and> pollIntervalRef ?s \<noteq> None)" using c(1) by simp
  note th = stale_response_applied
              [OF s p e, where env = env0 and data = ?d, unfolded Let_def if_not_P[OF nc]]
  from th have 1: "step env0 (Interval_Fires 1) ?s = ?s"
    and 2: "miningProgress (step env0 (Status_Response 1 (Some ?d)) ?s) =
            Math_max (miningProgress ?s) (clampProgress env0 ?d)"
    by blast+
  from 2 v c(2) have "miningProgress (step env0 (Status_Response 1 (Some ?d)) ?s) = Fin 70"
    by (simp add: Math_max_def del: step.simps)
  with 1 v show ?thesis by blast
qed

text \<open>
  C3, as stated, fails: a first run's status request is still in flight when the run
  ends and a second run starts with interval 2. The response to it, from interval 1,
  arrives afterwards and reports completion: it ends the second run and produces its
  result.
\<close>

theorem stale_snapshot_finalizes_next_run:
  "effectInterval (run env0 second_run (initial ''job-1'')) = Some 2 \<and>
   map_of (pendingStatus (run env0 second_run (initial ''job-1''))) 1 = Some (1, ''job-1'') \<and>
   isMining (run env0 second_run (initial ''job-1'')) = True \<and>
   miningResult (run env0 second_run (initial ''job-1'')) = None \<and>
   miningStatus (run env0 second_run (initial ''job-1'')) = ''Starting miner...'' \<and>
   isMining (run env0 (second_run @ [Status_Response 1 (Some (snapshot 100 ''Run 1 done'' ''completed'' None))])
     (initial ''job-1'')) = False \<and>
   miningStatus (run env0 (second_run @ [Status_Response 1 (Some (snapshot 100 ''Run 1 done'' ''completed'' None))])
     (initial ''job-1'')) = ''Run 1 done'' \<and>
   miningResult (run env0 (second_run @ [Status_Response 1 (Some (snapshot 100 ''Run 1 done'' ''completed'' None))])
     (initial ''job-1'')) =
     Some \<lparr>downloadUrl = ''http://host/api/download-result?job_id=job-1'', patternsCount = None\<rparr>"
  by (simp add: handler_defs)

text \<open>
  C1 (amended). When a poll tick finalizes the run first, the mining result comes from
  the poll tick (the constructed download address, no pattern count) and the completion
  toast is shown once. When the start request of that run resolves later, before any
  new click on the start button, it sets the mining result again, from the response (its
  download address, else the constructed one; its pattern count), and shows no further
  completion toast.
\<close>

theorem start_call_replaces_poll_result:
  assumes "map_of (pendingStatus s) r = Some (i, jid)" "pollIntervalRef s \<noteq> None" "completed env data"
      and "map_of (pendingMine s) q = Some (cj, cp)" "list_all (leaves_call q) es"
  shows "(let s1 = step env (Status_Response r (Some data)) s;
              s2 = run env es s1;
              s3 = step env (Mine_Response q (Some response)) s2
          in miningResult s1 =
               Some \<lparr>downloadUrl = baseURL env @ ''/api/download-result?job_id='' @ jid, patternsCount = None\<rparr> \<and>
             toasts s1 = toasts s @ [Toast_success ''Mining completed successfully!''] \<and>
             miningResult s3 =
               Some \<lparr>downloadUrl =
                       (if truthy (download_url response) then the (download_url response)
                        else baseURL env @ ''/api/download-result?job_id='' @ cj),
                     patternsCount = patterns_count response\<rparr> \<and>
             toasts s3 = toasts s2)"
proof -
  let ?s0 = "s\<lparr>pendingStatus := dropPending r (pendingStatus s)\<rparr>"
  let ?s1 = "step env (Status_Response r (Some data)) s"
  let ?s2 = "run env es ?s1"
  from assms(2) obtain k where k: "pollIntervalRef ?s0 = Some k" by auto
  note f = pollTick_final[OF assms(3) k, of jid]
  have s1: "?s1 = pollingEffect (pollTick env jid data ?s0)" using assms(1) by simp
  have a: "miningResult ?s1 =
      Some \<lparr>downloadUrl = baseURL env @ ''/api/download-result?job_id='' @ jid, patternsCount = None\<rparr>"
    and b: "toasts ?s1 = toasts s @ [Toast_success ''Mining completed successfully!'']"
    and c: "completedShownRef ?s1"
    and d: "map_of (pendingMine ?s1) q = Some (cj, cp)"
    unfolding s1 using f(6,7,9,10) assms(4) by (simp_all add: pollingEffect_frame)
  from run_keeps_call[OF assms(5) c, of env] d
  have c2: "completedShownRef ?s2" and d2: "map_of (pendingMine ?s2) q = Some (cj, cp)" by auto
  let ?s2' = "?s2\<lparr>pendingMine := dropPending q (pendingMine ?s2)\<rparr>"
  have s3: "step env (Mine_Response q (Some response)) ?s2 =
            pollingEffect (startMining_resolved env cj cp (Some response) ?s2')"
    using d2 by simp
  have e: "miningResult (startMining_resolved env cj cp (Some response) ?s2') =
       Some \<lparr>downloadUrl =
                       (if truthy (download_url response) then the (download_url response)
                        else baseURL env @ ''/api/download-result?job_id='' @ cj),
                     patternsCount = patterns_count response\<rparr>"
    by (simp add: startMining_resolved_def startMining_finally_def Let_def split: option.splits)
  have g: "toasts (startMining_resolved env cj cp (Some response) ?s2') = toasts ?s2"
    using c2 by (simp add: startMining_resolved_def startMining_finally_def Let_def split: option.splits)
  show ?thesis
    unfolding Let_def s3 using a b e g by (simp add: pollingEffect_frame)
qed

theorem start_call_replaces_poll_result_witness:
  "miningResult
     (step env0 (Mine_Response 0 (Some zip_response))
        (run env0 [Interval_Fires 1]
           (step env0 (Status_Response 1 (Some (snapshot 100 ''Done'' ''completed'' None)))
              (run env0 polling (initial ''job-1''))))) =
     Some \<lparr>downloadUrl = ''http://host/files/job-1.zip'', patternsCount = Some (Fin 12)\<rparr> \<and>
   toasts
     (step env0 (Mine_Response 0 (Some zip_response))
        (run env0 [Interval_Fires 1]
           (step env0 (Status_Response 1 (Some (snapshot 100 ''Done'' ''completed'' None)))
              (run env0 polling (initial ''job-1''))))) =
     [Toast_success ''Mining completed successfully!'']"
proof -
  let ?s = "run env0 polling (initial ''job-1'')"
  let ?d = "snapshot 100 ''Done'' ''completed'' None"
  have p: "map_of (pendingStatus ?s) 1 = Some (1, ''job-1'')" "pollIntervalRef ?s \<noteq> None"
          "map_of (pendingMine ?s) 0 = Some (''job-1'', None)" "toasts ?s = []"
    by (simp_all add: handler_defs)
  have c: "completed env0 ?d" by (simp add: handler_defs)
  have l: "list_all (leaves_call 0) [Interval_Fires 1]" by simp
  have t: "toasts (run env0 [Interval_Fires 1] (step env0 (Status_Response 1 (Some ?d)) ?s)) =
           toasts (step env0 (Status_Response 1 (Some ?d)) ?s)"
    by (simp add: intervalFires_def split: option.splits)
  from start_call_replaces_poll_result[OF p(1) p(2) c p(3) l, where response = zip_response] p(4) t
  show ?thesis
    by (simp add: Let_def zip_response_def env0_def)
qed

text \<open>
  C1, as stated, fails: the poll tick finalizes the run and produces a mining result;
  the start request resolves afterwards and the mining result is a different one.
\<close>

theorem start_call_overwrites_result_of_poll_tick:
  "miningResult (run env0
      (polling @ [Status_Response 1 (Some (snapshot 100 ''Done'' ''completed'' None))])
      (initial ''job-1'')) =
     Some \<lparr>downloadUrl = ''http://host/api/download-result?job_id=job-1'', patternsCount = None\<rparr> \<and>
   miningResult (run env0
      (polling @ [Status_Response 1 (Some (snapshot 100 ''Done'' ''completed'' None)),
                  Mine_Response 0 (Some zip_response)])
      (initial ''job-1'')) =
     Some \<lparr>downloadUrl = ''http://host/files/job-1.zip'', patternsCount = Some (Fin 12)\<rparr>"
  by (simp add: handler_defs)

end
